theory Spec2Isabelle
  imports Complex_Main "HOL-Library.Sublist"
begin

section \<open>Python strings\<close>

text \<open>
  A Python \<open>str\<close> is modelled as a \<open>string\<close> (a list of characters);
  \<open>bytes\<close> likewise.  \<open>s.startswith(p)\<close> is \<open>prefix p s\<close>.
\<close>

type_synonym bytes = string

text \<open>
  \<open>s.replace(old, new)\<close>: every non-overlapping occurrence of \<open>old\<close>, found from
  the left, is replaced by \<open>new\<close>.  For the empty \<open>old\<close> Python inserts \<open>new\<close> before
  every character and at the end.
\<close>

fun replace_ne :: "string \<Rightarrow> string \<Rightarrow> string \<Rightarrow> string" where
  "replace_ne old new [] = []"
| "replace_ne old new (c # cs) =
     (if old \<noteq> [] \<and> prefix old (c # cs)
      then new @ replace_ne old new (drop (length old - 1) cs)
      else c # replace_ne old new cs)"

definition py_replace :: "string \<Rightarrow> string \<Rightarrow> string \<Rightarrow> string" where
  "py_replace old new s =
     (if old = [] then new @ concat (map (\<lambda>c. c # new) s) else replace_ne old new s)"

section \<open>normalize\_path\<close>

text \<open>The list \<open>illegal_char\<close> of the source: \<open>: * ? " < > | '\<close>.\<close>

definition illegal_char :: "string list" where
  "illegal_char =
     [[CHR '':''], [CHR ''*''], [CHR ''?''], [CHR 0x22], [CHR ''<''], [CHR ''>''],
      [CHR ''|''], [CHR 0x27]]"

text \<open>
  The body of \<open>normalize_path\<close>: the two scheme replacements, the loop over
  \<open>illegal_char\<close> (a left fold, each round one \<open>replace(char, "")\<close>), and the
  test \<open>url.startswith("/")\<close> that returns \<open>url[1:]\<close>.
\<close>

definition normalize_path :: "string \<Rightarrow> string" where
  "normalize_path url =
     (let url1 = py_replace ''https://'' ''https/'' (py_replace ''http://'' ''http/'' url);
          url2 = foldl (\<lambda>u char. py_replace char [] u) url1 illegal_char
      in if prefix ''/'' url2 then drop 1 url2 else url2)"

text \<open>
  The specification's wording of the same function, for comparison with the code: fold the
  two schemes into path segments, delete every filesystem-illegal character, drop one
  leading separator if there is one.
\<close>

definition is_illegal :: "char \<Rightarrow> bool" where
  "is_illegal c =
     (c \<in> {CHR '':'', CHR ''*'', CHR ''?'', CHR 0x22, CHR ''<'', CHR ''>'', CHR ''|'', CHR 0x27})"

definition normalize_spec :: "string \<Rightarrow> string" where
  "normalize_spec s =
     (let folded = py_replace ''https://'' ''https/'' (py_replace ''http://'' ''http/'' s);
          kept = filter (\<lambda>c. \<not> is_illegal c) folded
      in case kept of
           [] \<Rightarrow> []
         | c # cs \<Rightarrow> if c = CHR ''/'' then cs else c # cs)"

section \<open>Python values used by the version check\<close>

text \<open>
  The exceptions the modelled code can meet.  \<open>SystemExit\<close> is the only one that is not
  an \<open>Exception\<close> (it derives from \<open>BaseException\<close>), so \<open>except Exception\<close> lets it
  pass.  \<open>ConnectionError\<close>, \<open>ReadTimeout\<close> and \<open>MissingSchema\<close> are those of
  \<open>requests.exceptions\<close> (a connect timeout is a \<open>ConnectionError\<close> there, a read timeout
  is not); \<open>RegexError\<close> is \<open>re.error\<close>.
\<close>

datatype py_exn =
    ConnectionError | ReadTimeout | MissingSchema | JSONDecodeError
  | KeyError | TypeError | ValueError | AttributeError | IndexError
  | FileNotFoundError | FileExistsError | IsADirectoryError | NotADirectoryError | OSError
  | RecursionError | RegexError | SystemExit

definition is_Exception :: "py_exn \<Rightarrow> bool" where
  "is_Exception e = (e \<noteq> SystemExit)"

text \<open>
  Python orders sequences (\<open>str\<close>, \<open>list\<close>) by their first differing element; when one
  is a prefix of the other the longer one is the greater.  \<open>seq_gt gt xs ys\<close> is
  \<open>xs > ys\<close> for elements ordered by \<open>gt\<close>.
\<close>

fun seq_gt :: "('a \<Rightarrow> 'a \<Rightarrow> bool) \<Rightarrow> 'a list \<Rightarrow> 'a list \<Rightarrow> bool" where
  "seq_gt gt [] ys = False"
| "seq_gt gt (x # xs) [] = True"
| "seq_gt gt (x # xs) (y # ys) = (if x = y then seq_gt gt xs ys else gt x y)"

definition str_gt :: "string \<Rightarrow> string \<Rightarrow> bool" where
  "str_gt a b = seq_gt (\<lambda>c d. (of_char d :: nat) < of_char c) a b"

definition list_gt :: "int list \<Rightarrow> int list \<Rightarrow> bool" where
  "list_gt xs ys = seq_gt (\<lambda>x y. y < x) xs ys"

text \<open>\<open>s.split(sep)\<close> for a one-character separator: never the empty list.\<close>

fun split :: "char \<Rightarrow> string \<Rightarrow> string list" where
  "split sep [] = [[]]"
| "split sep (c # cs) =
     (if c = sep then [] # split sep cs
      else (case split sep cs of [] \<Rightarrow> [[c]] | w # ws \<Rightarrow> (c # w) # ws))"

text \<open>
  ASCII whitespace as \<open>str.strip\<close> and \<open>int\<close> see it (tab to carriage return, the
  separators 0x1c to 0x1f, the space), and ASCII case mapping.  Characters beyond ASCII
  are left alone.
\<close>

definition is_space :: "char \<Rightarrow> bool" where
  "is_space c =
     (let n = (of_char c :: nat) in (9 \<le> n \<and> n \<le> 13) \<or> (28 \<le> n \<and> n \<le> 32))"

definition strip :: "string \<Rightarrow> string" where
  "strip s = rev (dropWhile is_space (rev (dropWhile is_space s)))"

definition lower_char :: "char \<Rightarrow> char" where
  "lower_char c =
     (let n = (of_char c :: nat) in if 65 \<le> n \<and> n \<le> 90 then char_of (n + 32) else c)"

definition upper_char :: "char \<Rightarrow> char" where
  "upper_char c =
     (let n = (of_char c :: nat) in if 97 \<le> n \<and> n \<le> 122 then char_of (n - 32) else c)"

definition lower :: "string \<Rightarrow> string" where
  "lower s = map lower_char s"

definition upper :: "string \<Rightarrow> string" where
  "upper s = map upper_char s"

text \<open>
  \<open>int(s)\<close> on a string: surrounding whitespace is stripped, one sign is allowed, then
  decimal digits, single underscores only between digits.  Anything else raises
  \<open>ValueError\<close>, here \<open>None\<close>.  Digits beyond ASCII and the interpreter's limit on the
  number of digits are not modelled.
\<close>

definition is_digit :: "char \<Rightarrow> bool" where
  "is_digit c = (let n = (of_char c :: nat) in 48 \<le> n \<and> n \<le> 57)"

definition digit_val :: "char \<Rightarrow> nat" where
  "digit_val c = of_char c - 48"

fun int_digits :: "nat \<Rightarrow> string \<Rightarrow> nat option" where
  "int_digits acc [] = Some acc"
| "int_digits acc (c # cs) =
     (if is_digit c then int_digits (acc * 10 + digit_val c) cs
      else if c = CHR ''_'' then
        (case cs of
           [] \<Rightarrow> None
         | d # ds \<Rightarrow> if is_digit d then int_digits (acc * 10 + digit_val d) ds else None)
      else None)"

definition int_body :: "string \<Rightarrow> nat option" where
  "int_body s =
     (case s of [] \<Rightarrow> None | c # cs \<Rightarrow> if is_digit c then int_digits (digit_val c) cs else None)"

definition py_int :: "string \<Rightarrow> int option" where
  "py_int s =
     (case strip s of
        [] \<Rightarrow> None
      | c # cs \<Rightarrow>
          if c = CHR ''-'' then map_option (\<lambda>n. - int n) (int_body cs)
          else if c = CHR ''+'' then map_option int (int_body cs)
          else map_option int (int_body (c # cs)))"

text \<open>\<open>str(n)\<close> for an integer: its decimal digits, with a minus sign when negative.\<close>

fun digits_of :: "nat \<Rightarrow> string" where
  "digits_of n =
     (if n < 10 then [char_of (48 + n)] else digits_of (n div 10) @ [char_of (48 + n mod 10)])"

declare digits_of.simps [simp del]

definition py_str :: "int \<Rightarrow> string" where
  "py_str i = (if i < 0 then CHR ''-'' # digits_of (nat (- i)) else digits_of (nat i))"

text \<open>
  \<open>int(x)\<close> on a float truncates towards zero.  Clock readings are modelled as exact
  reals; the rounding of floating-point arithmetic is not.
\<close>

definition int_of_float :: "real \<Rightarrow> int" where
  "int_of_float x = (if 0 \<le> x then \<lfloor>x\<rfloor> else \<lceil>x\<rceil>)"

text \<open>
  A decoded JSON document (numbers restricted to integers), and Python's subscript
  \<open>j[k]\<close> on it: a \<open>dict\<close> raises \<open>KeyError\<close> for an absent key and \<open>TypeError\<close> for an
  unhashable one, a \<open>list\<close> or \<open>str\<close> takes integer indices (negative ones from the
  end, a \<open>bool\<close> counting as 0 or 1), anything else is not subscriptable.
\<close>

datatype json =
  JNull | JBool bool | JNum int | JStr string | JArr "json list" | JObj "(string \<times> json) list"

definition seq_index :: "'a list \<Rightarrow> int \<Rightarrow> py_exn + 'a" where
  "seq_index xs i =
     (if 0 \<le> i \<and> i < int (length xs) then Inr (xs ! nat i)
      else if i < 0 \<and> - i \<le> int (length xs) then Inr (xs ! nat (int (length xs) + i))
      else Inl IndexError)"

fun py_index :: "json \<Rightarrow> json \<Rightarrow> py_exn + json" where
  "py_index (JObj kvs) (JStr k) = (case map_of kvs k of None \<Rightarrow> Inl KeyError | Some v \<Rightarrow> Inr v)"
| "py_index (JObj kvs) (JArr _) = Inl TypeError"
| "py_index (JObj kvs) (JObj _) = Inl TypeError"
| "py_index (JObj kvs) _ = Inl KeyError"
| "py_index (JArr xs) (JNum i) = seq_index xs i"
| "py_index (JArr xs) (JBool b) = seq_index xs (if b then 1 else 0)"
| "py_index (JArr xs) _ = Inl TypeError"
| "py_index (JStr s) (JNum i) = map_sum id (\<lambda>c. JStr [c]) (seq_index s i)"
| "py_index (JStr s) (JBool b) = map_sum id (\<lambda>c. JStr [c]) (seq_index s (if b then 1 else 0))"
| "py_index (JStr s) _ = Inl TypeError"
| "py_index _ _ = Inl TypeError"

text \<open>
  \<open>"error" in j\<close>: key membership for a \<open>dict\<close>, element membership for a \<open>list\<close>,
  substring test for a \<open>str\<close>; \<open>TypeError\<close> for a value that is not iterable.
\<close>

fun py_contains :: "string \<Rightarrow> json \<Rightarrow> py_exn + bool" where
  "py_contains k (JObj kvs) = Inr (k \<in> set (map fst kvs))"
| "py_contains k (JArr xs) = Inr (JStr k \<in> set xs)"
| "py_contains k (JStr s) = Inr (sublist k s)"
| "py_contains k _ = Inl TypeError"

section \<open>The two version comparisons of the update check\<close>

text \<open>
  Line 242 compares the published version with \<open>__version__\<close> by \<open>version > __version__\<close>
  on the two strings.  A value that is not a string cannot be ordered against one:
  \<open>TypeError\<close>.
\<close>

definition core_newer :: "json \<Rightarrow> string \<Rightarrow> py_exn + bool" where
  "core_newer version current =
     (case version of JStr v \<Rightarrow> Inr (str_gt v current) | _ \<Rightarrow> Inl TypeError)"

text \<open>
  Line 255 compares \<open>[int(x) for x in admin_version.split(".")]\<close> with the same list for
  \<open>local_version\<close>.  A value without \<open>split\<close> raises \<open>AttributeError\<close> (subscripting a
  non-string for the local one happened earlier), a component \<open>int\<close> rejects raises
  \<open>ValueError\<close>; the left list is built first.
\<close>

fun those_ints :: "string list \<Rightarrow> py_exn + int list" where
  "those_ints [] = Inr []"
| "those_ints (x # xs) =
     (case py_int x of
        None \<Rightarrow> Inl ValueError
      | Some i \<Rightarrow> (case those_ints xs of Inl e \<Rightarrow> Inl e | Inr is \<Rightarrow> Inr (i # is)))"

definition version_ints :: "json \<Rightarrow> py_exn + int list" where
  "version_ints j =
     (case j of JStr v \<Rightarrow> those_ints (split CHR ''.'' v) | _ \<Rightarrow> Inl AttributeError)"

definition admin_newer :: "json \<Rightarrow> json \<Rightarrow> py_exn + bool" where
  "admin_newer admin_version local_version =
     (case version_ints admin_version of
        Inl e \<Rightarrow> Inl e
      | Inr xs \<Rightarrow>
          (case version_ints local_version of
             Inl e \<Rightarrow> Inl e
           | Inr ys \<Rightarrow> Inr (list_gt xs ys)))"

text \<open>
  The specification's comparison of version markers, for comparison with the code:
  component by component, a missing component counting as zero.
\<close>

fun padded_gt :: "int list \<Rightarrow> int list \<Rightarrow> bool" where
  "padded_gt [] [] = False"
| "padded_gt (x # xs) [] = (if x = 0 then padded_gt xs [] else 0 < x)"
| "padded_gt [] (y # ys) = (if y = 0 then padded_gt [] ys else y < 0)"
| "padded_gt (x # xs) (y # ys) = (if x = y then padded_gt xs ys else y < x)"

fun padded_eq :: "int list \<Rightarrow> int list \<Rightarrow> bool" where
  "padded_eq [] [] = True"
| "padded_eq (x # xs) [] = (x = 0 \<and> padded_eq xs [])"
| "padded_eq [] (y # ys) = (y = 0 \<and> padded_eq [] ys)"
| "padded_eq (x # xs) (y # ys) = (x = y \<and> padded_eq xs ys)"

text \<open>A version string in the specification's sense: dot-separated runs of digits.\<close>

definition is_version :: "string \<Rightarrow> bool" where
  "is_version v = list_all (\<lambda>x. x \<noteq> [] \<and> list_all is_digit x) (split CHR ''.'' v)"

definition components :: "string \<Rightarrow> int list" where
  "components v = map (\<lambda>x. int (foldl (\<lambda>a c. a * 10 + digit_val c) 0 x)) (split CHR ''.'' v)"

section \<open>The world the module acts on\<close>

text \<open>
  Effects are explicit: a function of the module takes the world and returns either the
  raised exception or its result, together with the world it leaves.  The world holds
  the regular files (path and content) and the directories, the lines printed through
  the \<open>print_*\<close> helpers, the HTTP requests issued (URL and timeout in seconds), the
  number of worker threads started, and the number of \<open>time.time()\<close> readings taken.
  Paths are compared as strings, POSIX style.  Writes to the log file are not modelled.
\<close>

datatype level = Plain | Info | Success | Warning | Error

record world =
  files :: "(string \<times> bytes) list"
  dirs :: "string list"
  console :: "(level \<times> string) list"
  requests :: "(string \<times> nat) list"
  spawned :: nat
  ticks :: nat

type_synonym 'a io = "world \<Rightarrow> (py_exn + 'a) \<times> world"

definition return :: "'a \<Rightarrow> 'a io" where
  "return a w = (Inr a, w)"

definition raise :: "py_exn \<Rightarrow> 'a io" where
  "raise e w = (Inl e, w)"

definition lift :: "py_exn + 'a \<Rightarrow> 'a io" where
  "lift r w = (r, w)"

definition bind :: "'a io \<Rightarrow> ('a \<Rightarrow> 'b io) \<Rightarrow> 'b io" where
  "bind m f w = (case m w of (Inl e, w') \<Rightarrow> (Inl e, w') | (Inr a, w') \<Rightarrow> f a w')"

text \<open>\<open>try: m except <classes>: h\<close>, the classes given as a predicate.\<close>

definition catch :: "(py_exn \<Rightarrow> bool) \<Rightarrow> 'a io \<Rightarrow> (py_exn \<Rightarrow> 'a io) \<Rightarrow> 'a io" where
  "catch handles m h w =
     (case m w of
        (Inl e, w') \<Rightarrow> if handles e then h e w' else (Inl e, w')
      | (Inr a, w') \<Rightarrow> (Inr a, w'))"

subsection \<open>Console\<close>

definition print_line :: "level \<Rightarrow> string \<Rightarrow> unit io" where
  "print_line l message w = (Inr (), w\<lparr>console := console w @ [(l, message)]\<rparr>)"

definition print_info :: "string \<Rightarrow> unit io" where
  "print_info message = print_line Info message"

definition print_success :: "string \<Rightarrow> unit io" where
  "print_success message = print_line Success message"

definition print_warning :: "string \<Rightarrow> unit io" where
  "print_warning message = print_line Warning message"

text \<open>\<open>print_error\<close> with its default \<open>exit_=True\<close> ends in \<open>sys.exit(1)\<close>.\<close>

definition print_error :: "string \<Rightarrow> unit io" where
  "print_error message = bind (print_line Error message) (\<lambda>_. raise SystemExit)"

subsection \<open>Paths and files\<close>

text \<open>\<open>os.path.join\<close> of two parts and \<open>os.path.dirname\<close>, as \<open>posixpath\<close> defines them.\<close>

definition join :: "string \<Rightarrow> string \<Rightarrow> string" where
  "join a b =
     (if prefix ''/'' b then b
      else if a = [] \<or> last a = CHR ''/'' then a @ b
      else a @ ''/'' @ b)"

definition dirname :: "string \<Rightarrow> string" where
  "dirname p =
     (let head = rev (dropWhile (\<lambda>c. c \<noteq> CHR ''/'') (rev p))
      in if head \<noteq> [] \<and> \<not> list_all (\<lambda>c. c = CHR ''/'') head
         then rev (dropWhile (\<lambda>c. c = CHR ''/'') (rev head))
         else head)"

definition basename :: "string \<Rightarrow> string" where
  "basename p = rev (takeWhile (\<lambda>c. c \<noteq> CHR ''/'') (rev p))"

definition under :: "string \<Rightarrow> string \<Rightarrow> bool" where
  "under d p = (p \<noteq> d \<and> prefix (join d []) p)"

fun ancestors :: "nat \<Rightarrow> string \<Rightarrow> string list" where
  "ancestors 0 p = []"
| "ancestors (Suc n) p =
     (let d = dirname p in if d = [] \<or> d = p then [] else d # ancestors n d)"

text \<open>A path with the directories above it.\<close>

definition lineage :: "string \<Rightarrow> string list" where
  "lineage p = p # ancestors (length p) p"

definition path_exists :: "world \<Rightarrow> string \<Rightarrow> bool" where
  "path_exists w p = (p \<in> set (map fst (files w)) \<or> p \<in> set (dirs w))"

text \<open>\<open>os.path.lexists\<close> as an action: is there a file or a directory of that name?\<close>

definition lexists :: "string \<Rightarrow> bool io" where
  "lexists p w = (Inr (path_exists w p), w)"

text \<open>
  \<open>glob.glob(pathname)\<close>, which the module uses as an existence test (is the result
  non-empty?), reads its argument as a pattern.  A pathname without \<open>*\<close>, \<open>?\<close> or \<open>[\<close>
  matches itself if it exists.  Otherwise the pathname is split into directory and last
  component, the directory part is expanded first (to directories only) if it holds a
  pattern character itself, and in each directory found the last component is matched
  against the entries (\<open>glob1\<close>, which leaves out names beginning with a dot unless the
  pattern does) or, if it holds no pattern character, looked up (\<open>glob0\<close>).  The match
  of one name against one pattern is \<open>fnmatch\<close>, a parameter.  \<open>scandir\<close> lists a
  directory, the empty name being the current directory; a directory that cannot be
  listed has no entries.  The recursion of \<open>iglob\<close> is on the directory part, which is
  shorter than the pathname, so the length of the pathname bounds its depth.
\<close>

definition has_magic :: "string \<Rightarrow> bool" where
  "has_magic s = list_ex (\<lambda>c. c = CHR ''*'' \<or> c = CHR ''?'' \<or> c = CHR ''['') s"

definition is_hidden :: "string \<Rightarrow> bool" where
  "is_hidden name = prefix ''.'' name"

definition scandir :: "world \<Rightarrow> bool \<Rightarrow> string \<Rightarrow> string list" where
  "scandir w dironly d =
     (if d \<noteq> [] \<and> d \<notin> set (dirs w) then []
      else map basename
             (filter (\<lambda>e. dirname e = d \<and> basename e \<noteq> [])
                ((if dironly then [] else map fst (files w)) @ dirs w)))"

definition glob1 :: "(string \<Rightarrow> string \<Rightarrow> bool) \<Rightarrow> world \<Rightarrow> string \<Rightarrow> string \<Rightarrow> bool \<Rightarrow> string list" where
  "glob1 fnmatch w d pattern dironly =
     filter (\<lambda>name. fnmatch name pattern)
       (filter (\<lambda>name. is_hidden pattern \<or> \<not> is_hidden name) (scandir w dironly d))"

definition glob0 :: "world \<Rightarrow> string \<Rightarrow> string \<Rightarrow> string list" where
  "glob0 w d bname =
     (if bname = [] then (if d \<in> set (dirs w) then [bname] else [])
      else if path_exists w (join d bname) then [bname]
      else [])"

fun iglob :: "(string \<Rightarrow> string \<Rightarrow> bool) \<Rightarrow> world \<Rightarrow> nat \<Rightarrow> string \<Rightarrow> bool \<Rightarrow> string list" where
  "iglob fnmatch w 0 pathname dironly = []"
| "iglob fnmatch w (Suc n) pathname dironly =
     (if \<not> has_magic pathname then
        (if basename pathname \<noteq> []
         then (if path_exists w pathname then [pathname] else [])
         else (if dirname pathname \<in> set (dirs w) then [pathname] else []))
      else if dirname pathname = [] then glob1 fnmatch w [] (basename pathname) dironly
      else
        concat
          (map (\<lambda>d. map (join d)
                       (if has_magic (basename pathname)
                        then glob1 fnmatch w d (basename pathname) dironly
                        else glob0 w d (basename pathname)))
             (if dirname pathname \<noteq> pathname \<and> has_magic (dirname pathname)
              then iglob fnmatch w n (dirname pathname) True
              else [dirname pathname])))"

definition glob_glob :: "(string \<Rightarrow> string \<Rightarrow> bool) \<Rightarrow> string \<Rightarrow> bool io" where
  "glob_glob fnmatch pathname w =
     (Inr (iglob fnmatch w (Suc (length pathname)) pathname False \<noteq> []), w)"

definition read_file :: "string \<Rightarrow> bytes io" where
  "read_file p w =
     (case map_of (files w) p of
        Some d \<Rightarrow> (Inr d, w)
      | None \<Rightarrow> (Inl (if p \<in> set (dirs w) then OSError else FileNotFoundError), w))"

text \<open>
  \<open>write_file\<close> is a write that goes through: the file then holds exactly the data
  written, whatever it held before.  It stands for the writes of the module's own state
  files and of the frontend bundle.  \<open>open_wb\<close> is \<open>open(p, "wb")\<close> followed by the write,
  with the failures a path can cause: a regular file in the place of its directory or
  of a directory above (\<open>NotADirectoryError\<close>), a missing parent directory
  (\<open>FileNotFoundError\<close>), a name that ends in a slash or is a directory
  (\<open>IsADirectoryError\<close>).  Permissions, quotas and symbolic links are not modelled.
\<close>

definition write_file :: "string \<Rightarrow> bytes \<Rightarrow> unit io" where
  "write_file p d w = (Inr (), w\<lparr>files := (p, d) # filter (\<lambda>e. fst e \<noteq> p) (files w)\<rparr>)"

definition is_file :: "world \<Rightarrow> string \<Rightarrow> bool" where
  "is_file w p = (p \<in> set (map fst (files w)))"

definition open_wb :: "string \<Rightarrow> bytes \<Rightarrow> unit io" where
  "open_wb p d w =
     (let q = (if p \<noteq> [] \<and> last p = CHR ''/'' then dirname p else p)
      in if p = [] then (Inl FileNotFoundError, w)
         else if list_ex (is_file w) (lineage (dirname p)) then (Inl NotADirectoryError, w)
         else if dirname q \<noteq> [] \<and> dirname q \<noteq> q \<and> dirname q \<notin> set (dirs w)
         then (Inl FileNotFoundError, w)
         else if q \<noteq> p \<or> p \<in> set (dirs w) then (Inl IsADirectoryError, w)
         else write_file p d w)"

text \<open>
  \<open>os.makedirs(p)\<close> creates \<open>p\<close> and its missing ancestors.  An existing \<open>p\<close> is an
  error, and so is a regular file among the ancestors; in both cases nothing is created.
\<close>

definition makedirs :: "string \<Rightarrow> unit io" where
  "makedirs p w =
     (if p = [] then (Inl FileNotFoundError, w)
      else if path_exists w p then (Inl FileExistsError, w)
      else if list_ex (is_file w) (ancestors (length p) p) then (Inl NotADirectoryError, w)
      else (Inr (), w\<lparr>dirs := dirs w @ filter (\<lambda>d. d \<notin> set (dirs w)) (p # ancestors (length p) p)\<rparr>))"

definition rmtree :: "string \<Rightarrow> unit io" where
  "rmtree p w =
     (if p \<notin> set (dirs w)
      then (Inl (if p \<in> set (map fst (files w)) then OSError else FileNotFoundError), w)
      else (Inr (), w\<lparr>files := filter (\<lambda>e. \<not> under p (fst e)) (files w),
                       dirs := filter (\<lambda>d. d \<noteq> p \<and> \<not> under p d) (dirs w)\<rparr>))"

definition listdir :: "string \<Rightarrow> string list io" where
  "listdir d w =
     (if d \<notin> set (dirs w)
      then (Inl (if d \<in> set (map fst (files w)) then OSError else FileNotFoundError), w)
      else (Inr (remdups
                  (map (\<lambda>p. takeWhile (\<lambda>c. c \<noteq> CHR ''/'') (drop (length (join d [])) p))
                     (filter (under d) (map fst (files w) @ dirs w)))), w))"

text \<open>
  \<open>shutil.move(src, dst)\<close>: into \<open>dst\<close> when that is an existing directory (an error if
  the name is taken there), otherwise a rename of \<open>src\<close> and everything under it.
\<close>

definition rename :: "string \<Rightarrow> string \<Rightarrow> unit io" where
  "rename src dst w =
     (let moved = (\<lambda>p. p = src \<or> under src p);
          to = (\<lambda>p. dst @ drop (length src) p)
      in (Inr (),
          w\<lparr>files := map (\<lambda>e. if moved (fst e) then (to (fst e), snd e) else e)
                        (filter (\<lambda>e. fst e \<noteq> dst \<or> moved (fst e)) (files w)),
            dirs := map (\<lambda>d. if moved d then to d else d) (dirs w)\<rparr>))"

definition move :: "string \<Rightarrow> string \<Rightarrow> unit io" where
  "move src dst w =
     (if \<not> path_exists w src then (Inl FileNotFoundError, w)
      else if dst \<in> set (dirs w) then
        (if path_exists w (join dst (basename src)) then (Inl OSError, w)
         else rename src (join dst (basename src)) w)
      else rename src dst w)"

section \<open>What the module is given\<close>

text \<open>
  A \<open>requests.Response\<close>: its status code and body.  Its truth value is its \<open>ok\<close>
  property, which is false exactly when \<open>raise_for_status\<close> would raise, that is for
  the client and server error classes 400 to 599.
\<close>

record response =
  status_code :: nat
  content :: bytes

definition response_ok :: "response \<Rightarrow> bool" where
  "response_ok r = (\<not> (400 \<le> status_code r \<and> status_code r < 600))"

text \<open>An \<open>Episode\<close> record; the filter reads only its title.\<close>

record episode =
  title :: string

text \<open>
  Everything outside the module is a parameter: the network (\<open>requests.get\<close> with its
  timeout, raising or answering), the JSON codec, \<open>gzip\<close> and \<open>tarfile\<close> decoding (a tar
  archive as the list of its regular files), \<open>re.compile\<close> (\<open>None\<close> for \<open>re.error\<close>, else
  the test "\<open>findall\<close> finds a match"), \<open>Episode.contains_any_words\<close>, the environment
  variable \<open>DEBUG\<close>, the clock (\<open>time_time env k\<close> is the \<open>k\<close>-th reading of
  \<open>time.time()\<close>), the configuration paths and filters, the compiled-in versions
  \<open>__version__\<close> and \<open>__admin_version__\<close>, the number of further nested calls the
  interpreter's stack allows, the match of a name against a shell pattern
  (\<open>fnmatch name pattern\<close>), and the scheduling of the pool's threads as far as it
  shows: given the exceptions raised in a \<open>map\<close>, in the order of the input, the index
  (taken modulo their number) of the one that arrived first.
\<close>

record env =
  http_get :: "string \<Rightarrow> nat \<Rightarrow> py_exn + response"
  json_parse :: "bytes \<Rightarrow> json option"
  json_dumps :: "json \<Rightarrow> string"
  gunzip :: "bytes \<Rightarrow> py_exn + bytes"
  untar :: "bytes \<Rightarrow> py_exn + (string \<times> bytes) list"
  re_compile :: "string \<Rightarrow> (string \<Rightarrow> bool) option"
  contains_any_words :: "episode \<Rightarrow> string list \<Rightarrow> bool"
  getenv_DEBUG :: "string option"
  time_time :: "nat \<Rightarrow> real"
  BGMI_PATH :: string
  save_path :: string
  front_static_path :: string
  enable_global_filters :: bool
  global_filters :: "string list"
  core_version :: string
  frontend_version :: string
  stack_left :: nat
  fnmatch :: "string \<Rightarrow> string \<Rightarrow> bool"
  first_arrival :: "py_exn list \<Rightarrow> nat"

definition FRONTEND_NPM_URL :: string where
  "FRONTEND_NPM_URL = ''https://registry.npmjs.com/bgmi-frontend/''"

definition PACKAGE_JSON_URL :: "env \<Rightarrow> string" where
  "PACKAGE_JSON_URL env = ''https://registry.npmjs.com/bgmi-frontend/'' @ frontend_version env"

definition requests_get :: "env \<Rightarrow> string \<Rightarrow> nat \<Rightarrow> response io" where
  "requests_get env url timeout w =
     (http_get env url timeout, w\<lparr>requests := requests w @ [(url, timeout)]\<rparr>)"

definition response_json :: "env \<Rightarrow> response \<Rightarrow> json io" where
  "response_json env r =
     (case json_parse env (content r) of None \<Rightarrow> raise JSONDecodeError | Some j \<Rightarrow> return j)"

definition now :: "env \<Rightarrow> real io" where
  "now env w = (Inr (time_time env (ticks w)), w\<lparr>ticks := ticks w + 1\<rparr>)"

section \<open>download\_file, convert\_cover\_url\_to\_path, download\_cover\<close>

definition download_file :: "env \<Rightarrow> string \<Rightarrow> response option io" where
  "download_file env url =
     (if prefix ''https://'' url \<or> prefix ''http://'' url
      then bind (print_info (''Download: '' @ url))
             (\<lambda>_. bind (requests_get env url 60) (\<lambda>r. return (Some r)))
      else return None)"

definition convert_cover_url_to_path :: "env \<Rightarrow> string \<Rightarrow> string \<times> string" where
  "convert_cover_url_to_path env cover_url =
     (let cover_url' = normalize_path cover_url;
          file_path = join (save_path env) ''cover'';
          file_path' = join file_path cover_url';
          dir_path = dirname file_path'
      in (dir_path, file_path'))"

text \<open>
  \<open>ThreadPool(4)\<close> starts its worker threads when it is created.  \<open>p.map\<close> cuts the
  input into chunks of \<open>ceil(n / (4 * workers))\<close> items and hands the chunks to the
  workers.  A worker runs the items of a chunk in order and gives up the chunk at the
  first call that raises: the rest of that chunk is not run.  \<open>map\<close> blocks until every
  chunk has been handled; then, if no chunk failed, it returns the results in input
  order, and otherwise it re-raises the exception of the failed chunk that arrived
  first.  The chunks are run here one after the other in list order; the real
  interleaving of their console lines and requests is not modelled, and which failure
  arrived first is given by \<open>first_arrival\<close>.  \<open>p.close()\<close> changes nothing the world
  records.
\<close>

definition ThreadPool :: "nat \<Rightarrow> unit io" where
  "ThreadPool n w = (Inr (), w\<lparr>spawned := spawned w + n\<rparr>)"

definition chunksize :: "nat \<Rightarrow> nat \<Rightarrow> nat" where
  "chunksize workers n =
     (if n = 0 then 0 else n div (workers * 4) + (if n mod (workers * 4) = 0 then 0 else 1))"

fun chunks :: "nat \<Rightarrow> 'a list \<Rightarrow> 'a list list" where
  "chunks c [] = []"
| "chunks c (x # xs) = (if c = 0 then [] else take c (x # xs) # chunks c (drop (c - 1) xs))"

fun run_chunk :: "('a \<Rightarrow> 'b io) \<Rightarrow> 'a list \<Rightarrow> world \<Rightarrow> (py_exn + 'b list) \<times> world" where
  "run_chunk f [] w = (Inr [], w)"
| "run_chunk f (x # xs) w =
     (case f x w of
        (Inl e, w') \<Rightarrow> (Inl e, w')
      | (Inr b, w') \<Rightarrow>
          (case run_chunk f xs w' of
             (Inl e, w'') \<Rightarrow> (Inl e, w'')
           | (Inr bs, w'') \<Rightarrow> (Inr (b # bs), w'')))"

fun run_chunks :: "('a \<Rightarrow> 'b io) \<Rightarrow> 'a list list \<Rightarrow> world \<Rightarrow> (py_exn + 'b list) list \<times> world" where
  "run_chunks f [] w = ([], w)"
| "run_chunks f (c # cs) w =
     (case run_chunk f c w of (r, w') \<Rightarrow> (case run_chunks f cs w' of (rs, w'') \<Rightarrow> (r # rs, w'')))"

definition failures :: "(py_exn + 'b) list \<Rightarrow> py_exn list" where
  "failures rs = List.map_filter (\<lambda>r. case r of Inl e \<Rightarrow> Some e | Inr b \<Rightarrow> None) rs"

definition successes :: "(py_exn + 'b) list \<Rightarrow> 'b list" where
  "successes rs = List.map_filter (\<lambda>r. case r of Inl e \<Rightarrow> None | Inr b \<Rightarrow> Some b) rs"

definition pool_map :: "(py_exn list \<Rightarrow> nat) \<Rightarrow> nat \<Rightarrow> ('a \<Rightarrow> 'b io) \<Rightarrow> 'a list \<Rightarrow> 'b list io" where
  "pool_map arrival workers f xs w =
     (case run_chunks f (chunks (chunksize workers (length xs)) xs) w of
        (rs, w') \<Rightarrow>
          if failures rs = [] then (Inr (concat (successes rs)), w')
          else (Inl (failures rs ! (arrival (failures rs) mod length (failures rs))), w'))"

text \<open>
  The loop of \<open>download_cover\<close> over \<open>enumerate(content_list)\<close>: each result is paired with
  \<open>cover_url_list[index]\<close>; \<open>if not r: continue\<close> skips \<open>None\<close> and a response that is
  not \<open>ok\<close>.
\<close>

definition truthy :: "response option \<Rightarrow> bool" where
  "truthy r = (case r of None \<Rightarrow> False | Some resp \<Rightarrow> response_ok resp)"

fun write_covers :: "env \<Rightarrow> (string \<times> response option) list \<Rightarrow> unit io" where
  "write_covers env [] = return ()"
| "write_covers env ((url, r) # rest) =
     (case r of
        None \<Rightarrow> write_covers env rest
      | Some resp \<Rightarrow>
          if \<not> response_ok resp then write_covers env rest
          else
            (case convert_cover_url_to_path env url of
               (dir_path, file_path) \<Rightarrow>
                 bind (glob_glob (fnmatch env) dir_path)
                   (\<lambda>found. bind (if \<not> found then makedirs dir_path else return ())
                   (\<lambda>_. bind (open_wb file_path (content resp))
                   (\<lambda>_. write_covers env rest)))))"

definition download_cover :: "env \<Rightarrow> string list \<Rightarrow> unit io" where
  "download_cover env cover_url_list =
     bind (ThreadPool 4)
       (\<lambda>_. bind (pool_map (first_arrival env) 4 (download_file env) cover_url_list)
       (\<lambda>content_list. write_covers env (zip cover_url_list content_list)))"

section \<open>episode\_filter\_regex\<close>





section \<open>get\_web\_admin\<close>

text \<open>
  Step 1, the body of the \<open>try\<close>: the registry entry, the package manifest, the check
  for an \<open>"error"\<close> member (which ends in \<open>print_error\<close>, so in \<open>SystemExit\<close>), the tarball
  URL \<open>r["versions"][version["version"]]["dist"]["tarball"]\<close> and the tarball itself.
  A tarball URL that is not a string is rejected by \<open>requests\<close> before any connection.
\<close>

definition fetch_tarball :: "env \<Rightarrow> (response \<times> json) io" where
  "fetch_tarball env =
     bind (requests_get env FRONTEND_NPM_URL 60) (\<lambda>resp.
     bind (response_json env resp) (\<lambda>r.
     bind (requests_get env (PACKAGE_JSON_URL env) 60) (\<lambda>resp'.
     bind (response_json env resp') (\<lambda>version.
     bind (lift (py_contains ''error'' version)) (\<lambda>has_error.
       if has_error then
         bind (print_line Plain (json_dumps env version)) (\<lambda>_.
         bind (print_error ''unexpected npm error'') (\<lambda>_. raise SystemExit))
       else
         bind (lift (py_index r (JStr ''versions''))) (\<lambda>versions.
         bind (lift (py_index version (JStr ''version''))) (\<lambda>v.
         bind (lift (py_index versions v)) (\<lambda>entry.
         bind (lift (py_index entry (JStr ''dist''))) (\<lambda>dist.
         bind (lift (py_index dist (JStr ''tarball''))) (\<lambda>tar_url.
         bind (case tar_url of
                 JStr u \<Rightarrow> requests_get env u 60
               | _ \<Rightarrow> raise MissingSchema) (\<lambda>tarball.
         return (tarball, version))))))))))))"

text \<open>
  Steps 2 to 5, after the \<open>try\<close>: gunzip the body, remove and recreate the bundle
  directory, extract the archive into it, move every entry of \<open>package/dist\<close> up to the
  bundle root, write \<open>package.json\<close>.  No exception is handled here.
\<close>

fun extractall :: "string \<Rightarrow> (string \<times> bytes) list \<Rightarrow> unit io" where
  "extractall path [] = return ()"
| "extractall path ((name, d) # members) =
     bind (lexists (dirname (join path name))) (\<lambda>found.
     bind (if \<not> found then makedirs (dirname (join path name)) else return ()) (\<lambda>_.
     bind (write_file (join path name) d) (\<lambda>_. extractall path members)))"

fun move_all :: "string \<Rightarrow> string \<Rightarrow> string list \<Rightarrow> unit io" where
  "move_all src dst [] = return ()"
| "move_all src dst (file # rest) =
     bind (move (join src file) (join dst file)) (\<lambda>_. move_all src dst rest)"

definition shown :: "env \<Rightarrow> json \<Rightarrow> string" where
  "shown env j = (case j of JStr v \<Rightarrow> v | _ \<Rightarrow> json_dumps env j)"

definition install_bundle :: "env \<Rightarrow> string \<Rightarrow> response \<Rightarrow> json \<Rightarrow> unit io" where
  "install_bundle env method r version =
     bind (lift (gunzip env (content r))) (\<lambda>tar_file.
     bind (rmtree (front_static_path env)) (\<lambda>_.
     bind (makedirs (front_static_path env)) (\<lambda>_.
     bind (lift (untar env tar_file)) (\<lambda>members.
     bind (extractall (front_static_path env) members) (\<lambda>_.
     bind (listdir (join (join (front_static_path env) ''package'') ''dist'')) (\<lambda>names.
     bind (move_all (join (join (front_static_path env) ''package'') ''dist'')
             (front_static_path env) names) (\<lambda>_.
     bind (write_file (join (front_static_path env) ''package.json'') (json_dumps env version)) (\<lambda>_.
     bind (lift (py_index version (JStr ''version''))) (\<lambda>v.
     print_success (''Web admin page '' @ method @ '' successfully. version: '' @ shown env v))))))))))"

definition get_web_admin :: "env \<Rightarrow> string \<Rightarrow> unit io" where
  "get_web_admin env method =
     (case method of
        [] \<Rightarrow> raise IndexError
      | c # cs \<Rightarrow>
          bind (print_info (upper [c] @ cs @ ''ing BGmi frontend'')) (\<lambda>_.
          bind (catch (\<lambda>e. e = ConnectionError \<or> e = JSONDecodeError)
                  (bind (fetch_tarball env) (\<lambda>got. return (Some got)))
                  (\<lambda>e. bind (print_warning ''failed to download web admin'') (\<lambda>_. return None)))
            (\<lambda>got. case got of
                      None \<Rightarrow> return ()
                    | Some (r, version) \<Rightarrow> install_bundle env method r version)))"

section \<open>check\_update\<close>

text \<open>
  The body of the inner function \<open>update\<close>, with the call \<open>update()\<close> it makes on itself
  when \<open>mark\<close> is false passed in as \<open>self\<close>.  Opening \<open>latest\<close> for writing truncates it;
  \<open>f.write\<close> of a value that is not a string then raises \<open>TypeError\<close>.  \<open>str(e)\<close> in the
  warning is rendered by \<open>exn_text\<close>; the text of a Python exception is not modelled
  beyond its class, nor are the colour codes of the messages.
\<close>

definition exn_text :: "py_exn \<Rightarrow> string" where
  "exn_text e =
     (case e of
        ConnectionError \<Rightarrow> ''ConnectionError'' | ReadTimeout \<Rightarrow> ''ReadTimeout''
      | MissingSchema \<Rightarrow> ''MissingSchema'' | JSONDecodeError \<Rightarrow> ''JSONDecodeError''
      | KeyError \<Rightarrow> ''KeyError'' | TypeError \<Rightarrow> ''TypeError'' | ValueError \<Rightarrow> ''ValueError''
      | AttributeError \<Rightarrow> ''AttributeError'' | IndexError \<Rightarrow> ''IndexError''
      | FileNotFoundError \<Rightarrow> ''FileNotFoundError'' | FileExistsError \<Rightarrow> ''FileExistsError''
      | IsADirectoryError \<Rightarrow> ''IsADirectoryError'' | NotADirectoryError \<Rightarrow> ''NotADirectoryError''
      | OSError \<Rightarrow> ''OSError'' | RecursionError \<Rightarrow> ''RecursionError''
      | RegexError \<Rightarrow> ''error'' | SystemExit \<Rightarrow> ''SystemExit'')"

definition write_latest :: "env \<Rightarrow> json \<Rightarrow> unit io" where
  "write_latest env version =
     (case version of
        JStr v \<Rightarrow> write_file (join (BGMI_PATH env) ''latest'') v
      | _ \<Rightarrow> bind (write_file (join (BGMI_PATH env) ''latest'') []) (\<lambda>_. raise TypeError))"

definition check_frontend :: "env \<Rightarrow> json \<Rightarrow> unit io" where
  "check_frontend env admin_version =
     bind (glob_glob (fnmatch env) (join (front_static_path env) ''package.json'')) (\<lambda>found.
       if found then
         bind (read_file (join (front_static_path env) ''package.json'')) (\<lambda>text.
         bind (case json_parse env text of
                 None \<Rightarrow> raise JSONDecodeError
               | Some j \<Rightarrow> lift (py_index j (JStr ''version''))) (\<lambda>local_version.
         bind (lift (admin_newer admin_version local_version)) (\<lambda>newer.
           if newer then get_web_admin env ''update'' else return ())))
       else
         print_info ''Use 'bgmi install' to install BGmi frontend / download delegate'')"

definition update_body :: "env \<Rightarrow> bool \<Rightarrow> unit io \<Rightarrow> unit io" where
  "update_body env mark self =
     catch is_Exception
       (bind (print_info ''Checking update ...'') (\<lambda>_.
        bind (requests_get env ''https://pypi.org/pypi/bgmi/json'' 60) (\<lambda>resp.
        bind (response_json env resp) (\<lambda>pypi.
        bind (lift (py_index pypi (JStr ''info''))) (\<lambda>info.
        bind (lift (py_index info (JStr ''version''))) (\<lambda>version.
        bind (write_latest env version) (\<lambda>_.
        bind (lift (core_newer version (core_version env))) (\<lambda>newer.
        bind (if newer
              then print_warning (''Please update bgmi to the latest version '' @ shown env version
                     @ ''.'' @ [CHR 0x0A] @ ''Then execute `bgmi upgrade` to migrate database'')
              else print_success ''Your BGmi is the latest version.'') (\<lambda>_.
        bind (requests_get env (PACKAGE_JSON_URL env) 60) (\<lambda>resp'.
        bind (response_json env resp') (\<lambda>package_json.
        bind (lift (py_index package_json (JStr ''version''))) (\<lambda>admin_version.
        bind (check_frontend env admin_version) (\<lambda>_.
          if \<not> mark then bind self (\<lambda>_. raise SystemExit) else return ())))))))))))))
       (\<lambda>e. print_warning (''Error occurs when checking update, '' @ exn_text e))"

text \<open>
  \<open>update\<close> itself: \<open>update k\<close> is a call with room for \<open>k\<close> further nested calls on the
  interpreter's stack; with no room left the nested call raises \<open>RecursionError\<close>.
\<close>

primrec update :: "nat \<Rightarrow> env \<Rightarrow> bool \<Rightarrow> unit io" where
  "update 0 env mark = update_body env mark (raise RecursionError)"
| "update (Suc k) env mark = update_body env mark (update k env mark)"

text \<open>
  \<open>check_update\<close>: the marker file \<open>version\<close> under \<open>BGMI_PATH\<close>.  \<open>stamp\<close> is what both
  branches do when a check is due: write \<open>str(int(time.time()))\<close> to the marker, then
  call \<open>update()\<close>.  \<open>recheck\<close> is the second part, which reads the marker inside
  \<open>try ... except ValueError: pass\<close>.
\<close>

definition version_file :: "env \<Rightarrow> string" where
  "version_file env = join (BGMI_PATH env) ''version''"

definition stamp :: "env \<Rightarrow> bool \<Rightarrow> unit io" where
  "stamp env mark =
     bind (now env) (\<lambda>t.
     bind (write_file (version_file env) (py_str (int_of_float t))) (\<lambda>_.
     update (stack_left env) env mark))"

definition recheck :: "env \<Rightarrow> bool \<Rightarrow> unit io" where
  "recheck env mark =
     bind (read_file (version_file env)) (\<lambda>text.
       catch (\<lambda>e. e = ValueError)
         (case py_int text of
            None \<Rightarrow> raise ValueError
          | Some data \<Rightarrow>
              bind (now env) (\<lambda>t.
                if t - 7 * 24 * 3600 > real_of_int data then stamp env mark else return ()))
         (\<lambda>e. return ()))"

definition check_update :: "env \<Rightarrow> bool \<Rightarrow> unit io" where
  "check_update env mark =
     bind (\<lambda>w. if \<not> path_exists w (version_file env) then stamp env mark w else return () w)
       (\<lambda>_. recheck env mark)"

section \<open>Vocabulary for stating the properties\<close>

text \<open>
  The test of \<open>download_file\<close> on its argument, and the outcome of one fetch: \<open>None\<close> for
  a URL that is not attempted, else what the request returns or raises.
\<close>

definition attempted :: "string \<Rightarrow> bool" where
  "attempted url = (prefix ''https://'' url \<or> prefix ''http://'' url)"

definition fetch :: "env \<Rightarrow> string \<Rightarrow> py_exn + response option" where
  "fetch env url = (if attempted url then map_sum id Some (http_get env url 60) else Inr None)"

text \<open>
  All outcomes of a list of calls taken together: the results if every call returned,
  else the first exception in list order.  \<open>tried\<close> is the part of a chunk of URLs that a
  worker gets to: up to and including the first whose fetch raises.  \<open>logged\<close> is the
  trace the fetches of a list of URLs leave in the world.
\<close>

fun collect :: "(py_exn + 'b) list \<Rightarrow> py_exn + 'b list" where
  "collect [] = Inr []"
| "collect (Inl e # rs) = Inl e"
| "collect (Inr b # rs) = (case collect rs of Inl e \<Rightarrow> Inl e | Inr bs \<Rightarrow> Inr (b # bs))"

fun tried :: "env \<Rightarrow> string list \<Rightarrow> string list" where
  "tried env [] = []"
| "tried env (u # us) = (case fetch env u of Inl e \<Rightarrow> [u] | Inr r \<Rightarrow> u # tried env us)"

definition logged :: "string list \<Rightarrow> world \<Rightarrow> world" where
  "logged us w =
     w\<lparr>console := console w @ map (\<lambda>u. (Info, ''Download: '' @ u)) (filter attempted us),
       requests := requests w @ map (\<lambda>u. (u, 60)) (filter attempted us)\<rparr>"











text \<open>
  A concrete setting for examples: an empty world, and a network in which one host is
  down, one URL answers 404, one answers with the unassigned status 600, and every other
  request is answered 200 with the URL as body.  The package index reports version
  4.5.1; the frontend registry lists the tarball of 2.2.0 on the host that is down and
  that of 2.3.0 as an archive of three files.  The only regular expression that fails to
  compile is \<open>(\<close>.  Names are matched against patterns by \<open>wild\<close>, which reads \<open>*\<close>,
  \<open>?\<close> and a bracketed set of characters without negation or ranges (an unclosed
  bracket stands for itself); of the exceptions of a \<open>map\<close> the first in input order
  arrives first.
\<close>

function wild :: "string \<Rightarrow> string \<Rightarrow> bool" where
  "wild [] name = (name = [])"
| "wild (p # ps) [] = (p = CHR ''*'' \<and> wild ps [])"
| "wild (p # ps) (c # cs) =
     (if p = CHR ''*'' then wild ps (c # cs) \<or> wild (p # ps) cs
      else if p = CHR ''?'' then wild ps cs
      else if p = CHR ''['' \<and> CHR '']'' \<in> set ps
      then c \<in> set (takeWhile (\<lambda>x. x \<noteq> CHR '']'') ps)
           \<and> wild (tl (dropWhile (\<lambda>x. x \<noteq> CHR '']'') ps)) cs
      else p = c \<and> wild ps cs)"
  by pat_completeness auto

termination wild
proof (relation "measure (\<lambda>(p, n). length p + length n)")
  fix p :: char and ps :: string and c :: char and cs :: string
  have "length (tl (dropWhile (\<lambda>x. x \<noteq> CHR '']'') ps)) \<le> length ps"
    using length_dropWhile_le [of "\<lambda>x. x \<noteq> CHR '']''" ps] by simp
  then show "((tl (dropWhile (\<lambda>x. x \<noteq> CHR '']'') ps), cs), p # ps, c # cs)
      \<in> measure (\<lambda>(p, n). length p + length n)"
    by simp
qed simp_all

definition world0 :: world where
  "world0 = \<lparr>files = [], dirs = [], console = [], requests = [], spawned = 0, ticks = 0\<rparr>"

definition demo :: env where
  "demo =
     \<lparr>http_get = (\<lambda>url timeout.
         if url = ''http://a.com/down.jpg'' then Inl ConnectionError
         else if url = ''http://a.com/404.jpg''
         then Inr \<lparr>status_code = 404, content = ''Not Found''\<rparr>
         else if url = ''http://a.com/600.jpg''
         then Inr \<lparr>status_code = 600, content = ''odd''\<rparr>
         else Inr \<lparr>status_code = 200, content = url\<rparr>),
      json_parse = (\<lambda>b.
         if b = ''https://pypi.org/pypi/bgmi/json''
         then Some (JObj [(''info'', JObj [(''version'', JStr ''4.5.1'')])])
         else if b = ''https://registry.npmjs.com/bgmi-frontend/2.2.0''
         then Some (JObj [(''version'', JStr ''2.2.0'')])
         else if b = ''https://registry.npmjs.com/bgmi-frontend/2.3.0''
         then Some (JObj [(''version'', JStr ''2.3.0'')])
         else if b = ''{version: 2.2.0}''
         then Some (JObj [(''version'', JStr ''2.2.0'')])
         else if b = ''https://registry.npmjs.com/bgmi-frontend/''
         then Some (JObj [(''versions'', JObj
                [(''2.2.0'', JObj [(''dist'', JObj [(''tarball'', JStr ''http://a.com/down.jpg'')])]),
                 (''2.3.0'', JObj [(''dist'', JObj [(''tarball'', JStr ''http://a.com/bundle.tgz'')])])])])
         else None),
      json_dumps = (\<lambda>j. case py_index j (JStr ''version'') of
                           Inr (JStr v) \<Rightarrow> ''{version: '' @ v @ ''}''
                         | _ \<Rightarrow> ''{}''),
      gunzip = (\<lambda>b. if b = ''http://a.com/bundle.tgz'' then Inr ''tar'' else Inl OSError),
      untar = (\<lambda>b. if b = ''tar''
                    then Inr [(''package/package.json'', ''{}''),
                              (''package/dist/index.html'', ''<html>''),
                              (''package/dist/static/app.js'', ''js'')]
                    else Inl OSError),
      re_compile = (\<lambda>rx. if rx = ''('' then None else Some (\<lambda>t. sublist rx t)),
      contains_any_words = (\<lambda>e ks. list_ex (\<lambda>k. sublist k (lower (title e))) ks),
      getenv_DEBUG = None,
      time_time = (\<lambda>k. 1700000000 + real k),
      BGMI_PATH = ''/home/u/.bgmi'',
      save_path = ''/srv/bangumi'',
      front_static_path = ''/home/u/.bgmi/front_static'',
      enable_global_filters = True,
      global_filters = ['' RAW ''],
      core_version = ''4.5.0'',
      frontend_version = ''2.2.0'',
      stack_left = 2,
      fnmatch = (\<lambda>name pattern. wild pattern name),
      first_arrival = (\<lambda>errs. 0)\<rparr>"


text \<open>
  The number of update checks a world has seen: each run of \<open>update\<close> starts by printing
  \<open>Checking update ...\<close>.  An action that prints no such line leaves the count alone.
\<close>

definition checks :: "world \<Rightarrow> nat" where
  "checks w = length (filter (\<lambda>l. l = (Info, ''Checking update ...'')) (console w))"

definition no_check :: "'a io \<Rightarrow> bool" where
  "no_check m = (\<forall>w. checks (snd (m w)) = checks w)"

named_theorems no_check_intros

text \<open>The world after the marker was rewritten with the reading \<open>t\<close>, \<open>k\<close> readings on.\<close>

definition stamped :: "env \<Rightarrow> real \<Rightarrow> nat \<Rightarrow> world \<Rightarrow> world" where
  "stamped env t k w =
     w\<lparr>ticks := ticks w + k,
       files := (version_file env, py_str (int_of_float t))
                # filter (\<lambda>e. fst e \<noteq> version_file env) (files w)\<rparr>"

text \<open>
  Further worlds for examples: one whose marker file is older than seven days at the
  clock of \<open>demo\<close>, one with an installed frontend bundle of version 2.2.0; and what one
  successful round of \<open>update\<close> in \<open>demo\<close>, with no bundle installed, does to a world.
\<close>

definition old_marker :: world where
  "old_marker = world0\<lparr>files := [(''/home/u/.bgmi/version'', ''1699000000'')]\<rparr>"

definition installed :: world where
  "installed =
     world0\<lparr>files := [(''/home/u/.bgmi/front_static/index.html'', ''old''),
                       (''/home/u/.bgmi/front_static/package.json'', ''{version: 2.2.0}'')],
            dirs := [''/home/u/.bgmi/front_static'', ''/home/u/.bgmi'']\<rparr>"

definition checked :: "world \<Rightarrow> world" where
  "checked w =
     w\<lparr>files := (''/home/u/.bgmi/latest'', ''4.5.1'')
                 # filter (\<lambda>e. fst e \<noteq> ''/home/u/.bgmi/latest'') (files w),
       requests := requests w @
         [(''https://pypi.org/pypi/bgmi/json'', 60),
          (''https://registry.npmjs.com/bgmi-frontend/2.2.0'', 60)],
       console := console w @
         [(Info, ''Checking update ...''),
          (Warning, ''Please update bgmi to the latest version 4.5.1.'' @ [CHR 0x0A]
             @ ''Then execute `bgmi upgrade` to migrate database''),
          (Info, ''Use 'bgmi install' to install BGmi frontend / download delegate'')]\<rparr>"


section \<open>Properties of normalize\_path\<close>

lemma replace_ne_single: "replace_ne [c] [] s = filter (\<lambda>x. x \<noteq> c) s"
  by (induction s) auto

lemma py_replace_single: "py_replace [c] [] s = filter (\<lambda>x. x \<noteq> c) s"
  by (simp add: py_replace_def replace_ne_single)

lemma replace_ne_absent:
  "c \<in> set old \<Longrightarrow> c \<notin> set s \<Longrightarrow> replace_ne old new s = s"
proof (induction s)
  case Nil
  then show ?case by simp
next
  case (Cons x xs)
  have "\<not> prefix old (x # xs)"
  proof
    assume "prefix old (x # xs)"
    then have "set old \<subseteq> set (x # xs)" by (rule set_mono_prefix)
    with Cons.prems show False by auto
  qed
  with Cons show ?case by simp
qed

lemma py_replace_absent:
  "c \<in> set old \<Longrightarrow> c \<notin> set s \<Longrightarrow> py_replace old new s = s"
  using replace_ne_absent [of c old s new] by (auto simp: py_replace_def)

lemma strip_illegal:
  "foldl (\<lambda>u char. py_replace char [] u) s illegal_char = filter (\<lambda>c. \<not> is_illegal c) s"
  by (simp add: illegal_char_def py_replace_single is_illegal_def)

lemma normalize_path_unfold:
  "normalize_path s =
     (let t = filter (\<lambda>c. \<not> is_illegal c)
                (py_replace ''https://'' ''https/'' (py_replace ''http://'' ''http/'' s))
      in if prefix ''/'' t then drop 1 t else t)"
  by (simp add: normalize_path_def strip_illegal)

lemma normalize_path_legal: "c \<in> set (normalize_path s) \<Longrightarrow> \<not> is_illegal c"
  by (auto simp: normalize_path_unfold Let_def dest: in_set_dropD split: if_splits)

lemma normalize_path_fixed:
  assumes "list_all (\<lambda>c. \<not> is_illegal c) t" and "\<not> prefix ''/'' t"
  shows "normalize_path t = t"
proof -
  from assms(1) have colon: "CHR '':'' \<notin> set t"
    by (auto simp: list_all_iff is_illegal_def)
  then have "py_replace ''http://'' ''http/'' t = t"
    by (intro py_replace_absent [of "CHR '':''"]) simp_all
  moreover from colon have "py_replace ''https://'' ''https/'' t = t"
    by (intro py_replace_absent [of "CHR '':''"]) simp_all
  moreover from assms(1) have "filter (\<lambda>c. \<not> is_illegal c) t = t"
    by (simp add: list_all_iff)
  ultimately show ?thesis
    using assms(2) by (simp add: normalize_path_unfold)
qed

lemma normalize_path_twice:
  "normalize_path (normalize_path s) =
     (if prefix ''/'' (normalize_path s) then drop 1 (normalize_path s) else normalize_path s)"
proof (cases "prefix ''/'' (normalize_path s)")
  case False
  have "list_all (\<lambda>c. \<not> is_illegal c) (normalize_path s)"
    by (simp add: list_all_iff normalize_path_legal)
  with False show ?thesis by (simp add: normalize_path_fixed)
next
  case True
  let ?t = "normalize_path s"
  have legal: "list_all (\<lambda>c. \<not> is_illegal c) ?t"
    by (simp add: list_all_iff normalize_path_legal)
  then have colon: "CHR '':'' \<notin> set ?t"
    by (auto simp: list_all_iff is_illegal_def)
  then have "py_replace ''http://'' ''http/'' ?t = ?t"
    by (intro py_replace_absent [of "CHR '':''"]) simp_all
  moreover from colon have "py_replace ''https://'' ''https/'' ?t = ?t"
    by (intro py_replace_absent [of "CHR '':''"]) simp_all
  moreover from legal have "filter (\<lambda>c. \<not> is_illegal c) ?t = ?t"
    by (simp add: list_all_iff)
  ultimately have "normalize_path ?t = drop 1 ?t"
    using True by (subst normalize_path_unfold) simp
  with True show ?thesis by simp
qed

lemma normalize_path_url_relative:
  assumes "prefix ''http://'' s \<or> prefix ''https://'' s"
  shows "\<exists>r. normalize_path s = CHR ''h'' # r"
proof -
  have "\<exists>r. py_replace ''https://'' ''https/'' (py_replace ''http://'' ''http/'' s) = CHR ''h'' # r"
    using assms by (auto simp: py_replace_def prefix_def)
  then obtain r where
    "py_replace ''https://'' ''https/'' (py_replace ''http://'' ''http/'' s) = CHR ''h'' # r" ..
  then show ?thesis
    by (simp add: normalize_path_unfold is_illegal_def)
qed

text \<open>
  C7: \<open>normalize_path\<close> is a total function of its argument alone, and it computes what
  the specification describes: \<open>"http://"\<close> becomes \<open>"http/"\<close> and \<open>"https://"\<close> becomes
  \<open>"https/"\<close>, every occurrence of one of the characters \<open>: * ? " < > | '\<close> is deleted
  (none is left in the result), and one leading separator is dropped if the result begins
  with one.  In particular \<open>normalize_path("https://a.com/x:y?z")\<close> is
  \<open>"https/a.com/xyz"\<close>.
\<close>

theorem normalize_path_meets_spec:
  "normalize_path s = normalize_spec s
   \<and> list_all (\<lambda>c. \<not> is_illegal c) (normalize_path s)
   \<and> normalize_path ''https://a.com/x:y?z'' = ''https/a.com/xyz''"
proof -
  have "normalize_path s = normalize_spec s"
    by (simp add: normalize_path_unfold normalize_spec_def Let_def split: list.split)
  moreover have "list_all (\<lambda>c. \<not> is_illegal c) (normalize_path s)"
    by (simp add: list_all_iff normalize_path_legal)
  moreover have "normalize_path ''https://a.com/x:y?z'' = ''https/a.com/xyz''"
    by (simp add: normalize_path_def py_replace_def illegal_char_def)
  ultimately show ?thesis by simp
qed

theorem normalize_path_meets_spec_witness:
  "normalize_spec ''/http://b.org/p|q*.png'' = ''http/b.org/pq.png''
   \<and> normalize_path ''/http://b.org/p|q*.png'' = ''http/b.org/pq.png''"
  using normalize_path_meets_spec [of "''/http://b.org/p|q*.png''"]
  by (simp add: normalize_spec_def py_replace_def is_illegal_def)

text \<open>
  C6 (as amended): \<open>normalize_path(normalize_path(s)) = normalize_path(s)\<close> for every
  \<open>s\<close> whose normalized form does not begin with a path separator.  The function drops
  exactly one leading separator, so an input such as \<open>"//a"\<close> needs two applications.
\<close>

theorem normalize_path_idempotent:
  "\<not> prefix ''/'' (normalize_path s) \<Longrightarrow> normalize_path (normalize_path s) = normalize_path s"
  by (simp add: normalize_path_twice)

theorem normalize_path_idempotent_witness:
  "\<not> prefix ''/'' (normalize_path ''https://a.com/x:y?z'')
   \<and> normalize_path (normalize_path ''https://a.com/x:y?z'') = ''https/a.com/xyz''"
proof -
  have v: "normalize_path ''https://a.com/x:y?z'' = ''https/a.com/xyz''"
    by (simp add: normalize_path_def py_replace_def illegal_char_def)
  then have h: "\<not> prefix ''/'' (normalize_path ''https://a.com/x:y?z'')" by simp
  from normalize_path_idempotent [OF h] v h show ?thesis by simp
qed

theorem normalize_path_idempotent_counterexample:
  "normalize_path ''//a'' = ''/a''
   \<and> normalize_path (normalize_path ''//a'') = ''a''
   \<and> normalize_path (normalize_path ''//a'') \<noteq> normalize_path ''//a''"
  by (simp add: normalize_path_def py_replace_def illegal_char_def)

section \<open>Properties of the version comparison\<close>

lemma int_digits_all:
  "list_all is_digit xs \<Longrightarrow>
   int_digits acc xs = Some (foldl (\<lambda>a c. a * 10 + digit_val c) acc xs)"
  by (induction xs arbitrary: acc) auto

lemma digit_not_space: "is_digit c \<Longrightarrow> \<not> is_space c"
  by (auto simp: is_digit_def is_space_def Let_def)

lemma strip_digits:
  assumes "list_all is_digit xs"
  shows "strip xs = xs"
proof -
  have a: "dropWhile is_space xs = xs"
    using assms by (cases xs) (auto simp: digit_not_space)
  have "list_all is_digit (rev xs)" using assms by (simp add: list_all_iff)
  then have "dropWhile is_space (rev xs) = rev xs"
    by (cases "rev xs") (auto simp: digit_not_space)
  with a show ?thesis by (simp add: strip_def)
qed

lemma py_int_digits:
  assumes "xs \<noteq> []" "list_all is_digit xs"
  shows "py_int xs = Some (int (foldl (\<lambda>a c. a * 10 + digit_val c) 0 xs))"
proof -
  from assms obtain c cs where xs: "xs = c # cs" by (cases xs) auto
  with assms have c: "is_digit c" and cs: "list_all is_digit cs" by auto
  from c have "c \<noteq> CHR ''-''" "c \<noteq> CHR ''+''" by (auto simp: is_digit_def)
  moreover have "strip (c # cs) = c # cs"
    using strip_digits [OF assms(2)] by (simp add: xs)
  ultimately show ?thesis
    using c cs by (simp add: py_int_def xs int_body_def int_digits_all)
qed

lemma those_ints_digits:
  "list_all (\<lambda>x. x \<noteq> [] \<and> list_all is_digit x) ws \<Longrightarrow>
   those_ints ws = Inr (map (\<lambda>x. int (foldl (\<lambda>a c. a * 10 + digit_val c) 0 x)) ws)"
  by (induction ws) (auto simp: py_int_digits)

lemma version_ints_components:
  "is_version v \<Longrightarrow> version_ints (JStr v) = Inr (components v)"
  by (simp add: is_version_def version_ints_def components_def those_ints_digits)

lemma components_nonneg: "list_all (\<lambda>x. 0 \<le> x) (components v)"
  by (simp add: components_def list_all_iff)

lemma padded_gt_or_eq_nil:
  "list_all (\<lambda>x. 0 \<le> x) xs \<Longrightarrow> padded_gt xs [] \<or> padded_eq xs []"
  by (induction xs) auto

lemma nil_not_padded_gt:
  "list_all (\<lambda>x. 0 \<le> x) ys \<Longrightarrow> \<not> padded_gt [] ys"
  by (induction ys) auto

lemma list_gt_padded:
  "list_all (\<lambda>x. 0 \<le> x) xs \<Longrightarrow> list_all (\<lambda>x. 0 \<le> x) ys \<Longrightarrow>
   list_gt xs ys = (padded_gt xs ys \<or> (padded_eq xs ys \<and> length ys < length xs))"
proof (induction xs ys rule: list_induct2')
  case 1
  then show ?case by (simp add: list_gt_def)
next
  case (2 x xs)
  then show ?case
    using padded_gt_or_eq_nil [of "x # xs"] by (simp add: list_gt_def)
next
  case (3 y ys)
  then show ?case
    using nil_not_padded_gt [of "y # ys"] by (simp add: list_gt_def)
next
  case (4 x xs y ys)
  then show ?case
    by (auto simp: list_gt_def)
qed

text \<open>
  C1 (as amended): the frontend-bundle comparison of the update check (line 255, remote
  \<open>package.json\<close> version against the local one) orders dot-separated
  non-negative-integer version strings component-wise and numerically.  It agrees with
  the zero-padded comparison except where the two versions are equal under zero-padding:
  there the one with more components is the greater, so \<open>"1.0.0"\<close> is newer than
  \<open>"1.0"\<close>.
\<close>

theorem admin_newer_componentwise:
  assumes "is_version a" and "is_version b"
  shows "admin_newer (JStr a) (JStr b) =
           Inr (padded_gt (components a) (components b)
                \<or> (padded_eq (components a) (components b)
                    \<and> length (components b) < length (components a)))"
  using assms list_gt_padded [OF components_nonneg components_nonneg, of a b]
  by (simp add: admin_newer_def version_ints_components)

theorem admin_newer_componentwise_witness:
  "is_version ''2.10'' \<and> is_version ''2.9''
   \<and> components ''2.10'' = [2, 10] \<and> components ''2.9'' = [2, 9]
   \<and> admin_newer (JStr ''2.10'') (JStr ''2.9'') = Inr True
   \<and> admin_newer (JStr ''2.9'') (JStr ''2.10'') = Inr False"
proof -
  have a: "is_version ''2.10''" and b: "is_version ''2.9''"
    by (simp_all add: is_version_def is_digit_def)
  have c: "components ''2.10'' = [2, 10]" "components ''2.9'' = [2, 9]"
    by (simp_all add: components_def digit_val_def)
  from admin_newer_componentwise [OF a b] admin_newer_componentwise [OF b a] a b c
  show ?thesis by simp
qed

theorem version_comparison_counterexample:
  "core_newer (JStr ''2.9'') ''2.10'' = Inr True
   \<and> admin_newer (JStr ''1.0.0'') (JStr ''1.0'') = Inr True
   \<and> padded_eq (components ''1.0.0'') (components ''1.0'')"
  by (simp add: core_newer_def str_gt_def admin_newer_def version_ints_def py_int_def
      strip_def is_space_def int_body_def is_digit_def digit_val_def list_gt_def
      components_def)

section \<open>Properties of download\_file and download\_cover\<close>

lemma download_file_unfold:
  "download_file env url w =
     (if attempted url
      then (map_sum id Some (http_get env url 60),
            w\<lparr>console := console w @ [(Info, ''Download: '' @ url)],
              requests := requests w @ [(url, 60)]\<rparr>)
      else (Inr None, w))"
  by (auto simp: download_file_def bind_def return_def print_info_def print_line_def
      requests_get_def attempted_def split: sum.splits)

subsection \<open>The pool\<close>

lemma logged_logged: "logged ys (logged xs w) = logged (xs @ ys) w"
  by (simp add: logged_def)

lemma logged_frame:
  "files (logged us w) = files w" "dirs (logged us w) = dirs w"
  "spawned (logged us w) = spawned w" "ticks (logged us w) = ticks w"
  "console (logged us w) = console w @ map (\<lambda>u. (Info, ''Download: '' @ u)) (filter attempted us)"
  "requests (logged us w) = requests w @ map (\<lambda>u. (u, 60)) (filter attempted us)"
  by (simp_all add: logged_def)

lemma download_file_logged: "download_file env u w = (fetch env u, logged [u] w)"
  by (simp add: download_file_unfold fetch_def logged_def)

lemma run_chunk_download:
  "run_chunk (download_file env) us w = (collect (map (fetch env) us), logged (tried env us) w)"
proof (induction us arbitrary: w)
  case Nil
  then show ?case by (simp add: logged_def)
next
  case (Cons u us)
  have step: "run_chunk (download_file env) (u # us) w =
      (case fetch env u of
         Inl e \<Rightarrow> (Inl e, logged [u] w)
       | Inr b \<Rightarrow>
           (case run_chunk (download_file env) us (logged [u] w) of
              (Inl e, w'') \<Rightarrow> (Inl e, w'')
            | (Inr bs, w'') \<Rightarrow> (Inr (b # bs), w'')))"
    by (simp add: download_file_logged [of env u w] split: sum.splits)
  show ?case
    unfolding step Cons.IH logged_logged
    by (cases "fetch env u") (simp_all split: sum.splits)
qed

lemma run_chunks_download:
  "run_chunks (download_file env) cs w =
     (map (\<lambda>c. collect (map (fetch env) c)) cs, logged (concat (map (tried env) cs)) w)"
proof (induction cs arbitrary: w)
  case Nil
  then show ?case by (simp add: logged_def)
next
  case (Cons c cs)
  show ?case
    by (simp only: run_chunks.simps run_chunk_download Cons.IH logged_logged prod.case
        list.map concat.simps)
qed

lemma concat_chunks: "0 < c \<Longrightarrow> concat (chunks c xs) = xs"
proof (induction c xs rule: chunks.induct)
  case (1 c)
  then show ?case by simp
next
  case (2 c x xs)
  then obtain k where k: "c = Suc k" by (cases c) auto
  from 2 show ?case by (simp add: k)
qed

lemma chunksize_pos: "0 < n \<Longrightarrow> 0 < chunksize k n"
proof (cases "n mod (k * 4) = 0")
  case True
  assume "0 < n"
  with True have "0 < n div (k * 4)"
    by (metis div_mult_mod_eq add.right_neutral mult_is_0 neq0_conv)
  with True \<open>0 < n\<close> show ?thesis by (simp add: chunksize_def)
next
  case False
  assume "0 < n"
  with False show ?thesis by (simp add: chunksize_def)
qed

lemma concat_chunks_all: "concat (chunks (chunksize k (length xs)) xs) = xs"
proof (cases xs)
  case Nil
  then show ?thesis by simp
next
  case (Cons a list)
  then have "0 < chunksize k (length xs)" by (simp add: chunksize_pos)
  then show ?thesis by (rule concat_chunks)
qed


lemma collect_Cons:
  "collect (x # xs) = Inr rs \<longleftrightarrow> (\<exists>b bs. x = Inr b \<and> collect xs = Inr bs \<and> rs = b # bs)"
  by (cases x) (auto split: sum.splits)

lemma collect_append:
  "collect (xs @ ys) =
     (case collect xs of
        Inl e \<Rightarrow> Inl e
      | Inr a \<Rightarrow> (case collect ys of Inl e \<Rightarrow> Inl e | Inr b \<Rightarrow> Inr (a @ b)))"
  by (induction xs rule: collect.induct) (auto split: sum.splits)


lemma failures_simps:
  "failures [] = []"
  "failures (Inl e # rs) = e # failures rs"
  "failures (Inr b # rs) = failures rs"
  "successes [] = []"
  "successes (Inl e # rs) = successes rs"
  "successes (Inr b # rs) = b # successes rs"
  by (simp_all add: failures_def successes_def List.map_filter_simps)

lemma chunks_all_returned:
  "collect (map f (concat cs)) = Inr rs \<Longrightarrow>
   failures (map (\<lambda>c. collect (map f c)) cs) = []
   \<and> concat (successes (map (\<lambda>c. collect (map f c)) cs)) = rs"
proof (induction cs arbitrary: rs)
  case Nil
  then show ?case by (simp add: failures_simps)
next
  case (Cons c cs)
  from Cons.prems obtain a b where
    a: "collect (map f c) = Inr a" and b: "collect (map f (concat cs)) = Inr b" and rs: "rs = a @ b"
    by (auto simp: collect_append split: sum.splits)
  from Cons.IH [OF b] show ?case by (simp add: a rs failures_simps)
qed



lemma tried_all: "collect (map (fetch env) us) = Inr rs \<Longrightarrow> tried env us = us"
  by (induction us arbitrary: rs) (auto simp: collect_Cons)

lemma tried_chunks:
  "collect (map (fetch env) (concat cs)) = Inr rs \<Longrightarrow> concat (map (tried env) cs) = concat cs"
proof (induction cs arbitrary: rs)
  case Nil
  then show ?case by simp
next
  case (Cons c cs)
  from Cons.prems obtain a b where
    a: "collect (map (fetch env) c) = Inr a" and b: "collect (map (fetch env) (concat cs)) = Inr b"
    by (auto simp: collect_append split: sum.splits)
  from Cons.IH [OF b] tried_all [OF a] show ?case by simp
qed

lemma pool_map_returns:
  assumes "collect (map (fetch env) urls) = Inr rs"
  shows "pool_map arrival k (download_file env) urls w = (Inr rs, logged urls w)"
proof -
  let ?cs = "chunks (chunksize k (length urls)) urls"
  have c: "concat ?cs = urls" by (rule concat_chunks_all)
  with assms have r: "collect (map (fetch env) (concat ?cs)) = Inr rs" by simp
  from chunks_all_returned [OF r] tried_chunks [OF r] c show ?thesis
    by (simp add: pool_map_def run_chunks_download)
qed


lemma download_cover_returns:
  assumes "collect (map (fetch env) urls) = Inr rs"
  shows "download_cover env urls w
     = write_covers env (zip urls rs) (logged urls (w\<lparr>spawned := spawned w + 4\<rparr>))"
  by (simp add: download_cover_def bind_def ThreadPool_def pool_map_returns [OF assms])


subsection \<open>Paths\<close>


lemma split_no_sep: "sep \<notin> set p \<Longrightarrow> split sep p = [p]"
  by (induction p) auto














lemma glob_literal:
  "\<not> has_magic p \<Longrightarrow> basename p \<noteq> [] \<Longrightarrow> glob_glob m p w = (Inr (path_exists w p), w)"
  by (simp add: glob_glob_def)

subsection \<open>The write loop\<close>

















lemma fetched_attempted:
  "collect (map (fetch env) urls) = Inr rs \<Longrightarrow>
   list_all (\<lambda>(url, r). truthy r \<longrightarrow> attempted url) (zip urls rs)"
proof (induction urls arbitrary: rs)
  case Nil
  then show ?case by simp
next
  case (Cons u urls)
  from Cons.prems obtain b bs where
    b: "fetch env u = Inr b" and bs: "collect (map (fetch env) urls) = Inr bs" and rs: "rs = b # bs"
    by (auto simp: collect_Cons)
  from b have "truthy b \<longrightarrow> attempted u"
    by (auto simp: fetch_def truthy_def split: if_splits)
  with Cons.IH [OF bs] show ?case by (simp add: rs)
qed









text \<open>
  C3 (as amended): \<open>download_file\<close> attempts only URLs beginning with \<open>http://\<close> or
  \<open>https://\<close>; for every other input it returns \<open>None\<close> without error and without any
  effect.  An attempted URL is requested once, with a timeout of 60 seconds; the response
  is returned whatever its status, and an exception the request raises (connection
  error, timeout) is raised to the caller.
\<close>

theorem download_file_contract:
  "(\<not> attempted url \<longrightarrow> download_file env url w = (Inr None, w))
   \<and> (attempted url \<longrightarrow>
        requests (snd (download_file env url w)) = requests w @ [(url, 60)]
        \<and> (\<forall>r. http_get env url 60 = Inr r \<longrightarrow> fst (download_file env url w) = Inr (Some r))
        \<and> (\<forall>e. http_get env url 60 = Inl e \<longrightarrow> fst (download_file env url w) = Inl e))"
  by (simp add: download_file_unfold)

theorem download_file_contract_witness:
  "\<not> attempted ''ftp://a.com/y.jpg''
   \<and> download_file demo ''ftp://a.com/y.jpg'' world0 = (Inr None, world0)
   \<and> attempted ''https://a.com/x.jpg''
   \<and> requests (snd (download_file demo ''https://a.com/x.jpg'' world0)) = [(''https://a.com/x.jpg'', 60)]
   \<and> fst (download_file demo ''https://a.com/x.jpg'' world0)
       = Inr (Some \<lparr>status_code = 200, content = ''https://a.com/x.jpg''\<rparr>)"
proof -
  have a: "\<not> attempted ''ftp://a.com/y.jpg''" and b: "attempted ''https://a.com/x.jpg''"
    by (simp_all add: attempted_def)
  have c: "http_get demo ''https://a.com/x.jpg'' 60
      = Inr \<lparr>status_code = 200, content = ''https://a.com/x.jpg''\<rparr>"
    by (simp add: demo_def)
  from download_file_contract [of "''ftp://a.com/y.jpg''" demo world0]
    download_file_contract [of "''https://a.com/x.jpg''" demo world0] a b c
  show ?thesis by (simp add: world0_def)
qed

theorem download_file_raises_counterexample:
  "attempted ''http://a.com/down.jpg''
   \<and> http_get demo ''http://a.com/down.jpg'' 60 = Inl ConnectionError
   \<and> fst (download_file demo ''http://a.com/down.jpg'' world0) = Inl ConnectionError"
  by (simp add: download_file_unfold attempted_def demo_def)

text \<open>
  C9 (as amended): \<open>download_cover\<close> applied to the empty list creates its pool of four
  worker threads, issues no request, prints nothing, writes no file, creates no
  directory, and returns normally.
\<close>

theorem download_cover_empty:
  "download_cover env [] w = (Inr (), w\<lparr>spawned := spawned w + 4\<rparr>)"
  by (simp add: download_cover_returns [of env "[]" "[]"] logged_def return_def)

theorem download_cover_empty_witness:
  "download_cover demo [] world0 = (Inr (), world0\<lparr>spawned := 4\<rparr>)"
  using download_cover_empty [of demo world0] by (simp add: world0_def)

theorem download_cover_empty_counterexample:
  "spawned world0 = 0 \<and> spawned (snd (download_cover demo [] world0)) = 4"
  by (simp add: download_cover_returns [of demo "[]" "[]"] logged_def world0_def return_def)

text \<open>
  C10 (as amended): in \<open>download_cover\<close> a response with a status code from 400 to 599
  is treated exactly like a \<open>None\<close> result: the truth test skips it, so for that URL no
  directory is created and no file is written although the fetch returned a body.  (A
  status code of 600 or more passes the truth test and is written.)
\<close>

theorem error_response_skipped:
  assumes "400 \<le> status_code r" and "status_code r < 600"
  shows "write_covers env ((url, Some r) # rest) w = write_covers env ((url, None) # rest) w
     \<and> (attempted url \<and> http_get env url 60 = Inr r \<longrightarrow>
          fst (download_cover env [url] w) = Inr ()
          \<and> files (snd (download_cover env [url] w)) = files w
          \<and> dirs (snd (download_cover env [url] w)) = dirs w)"
proof -
  from assms have no: "\<not> response_ok r"
    by (simp add: response_ok_def)
  have "download_cover env [url] w = (Inr (), logged [url] (w\<lparr>spawned := spawned w + 4\<rparr>))"
    if "attempted url \<and> http_get env url 60 = Inr r"
  proof -
    from that have c: "collect (map (fetch env) [url]) = Inr [Some r]"
      by (simp add: fetch_def)
    show ?thesis
      by (simp add: download_cover_returns [OF c] no return_def)
  qed
  with no show ?thesis
    by (auto simp: logged_frame)
qed

theorem error_response_skipped_witness:
  "write_covers demo [(''http://a.com/404.jpg'', Some \<lparr>status_code = 404, content = ''Not Found''\<rparr>)] world0
     = (Inr (), world0)
   \<and> fst (download_cover demo [''http://a.com/404.jpg''] world0) = Inr ()
   \<and> files (snd (download_cover demo [''http://a.com/404.jpg''] world0)) = []
   \<and> dirs (snd (download_cover demo [''http://a.com/404.jpg''] world0)) = []"
proof -
  let ?r = "\<lparr>status_code = 404, content = ''Not Found''\<rparr>"
  have a: "400 \<le> status_code ?r" and b: "status_code ?r < 600" by simp_all
  have c: "attempted ''http://a.com/404.jpg''" by (simp add: attempted_def)
  have d: "http_get demo ''http://a.com/404.jpg'' 60 = Inr ?r" by (simp add: demo_def)
  from error_response_skipped [OF a b, of demo "''http://a.com/404.jpg''" "[]" world0] c d
  show ?thesis by (simp add: return_def world0_def)
qed

theorem status_600_written_counterexample:
  "http_get demo ''http://a.com/600.jpg'' 60 = Inr \<lparr>status_code = 600, content = ''odd''\<rparr>
   \<and> 400 \<le> status_code \<lparr>status_code = 600, content = ''odd''\<rparr>
   \<and> fst (download_cover demo [''http://a.com/600.jpg''] world0) = Inr ()
   \<and> files (snd (download_cover demo [''http://a.com/600.jpg''] world0))
       = [(''/srv/bangumi/cover/http/a.com/600.jpg'', ''odd'')]
   \<and> ''/srv/bangumi/cover/http/a.com'' \<in> set (dirs (snd (download_cover demo [''http://a.com/600.jpg''] world0)))"
  by code_simp

section \<open>Properties of episode\_filter\_regex\<close>



section \<open>Properties of get\_web\_admin\<close>











lemma fetch_tarball_registry_down:
  "http_get env FRONTEND_NPM_URL 60 = Inl e \<Longrightarrow> fst (fetch_tarball env w) = Inl e"
  by (simp add: fetch_tarball_def bind_def requests_get_def)

lemma fetch_tarball_registry_malformed:
  "http_get env FRONTEND_NPM_URL 60 = Inr resp \<Longrightarrow> json_parse env (content resp) = None \<Longrightarrow>
   fst (fetch_tarball env w) = Inl JSONDecodeError"
  by (simp add: fetch_tarball_def bind_def requests_get_def response_json_def raise_def)



text \<open>
  For contrast, a run in which step 1 succeeds: the old bundle is removed and the new one
  put in its place.
\<close>

lemma install_example:
  "get_web_admin (demo\<lparr>frontend_version := ''2.3.0''\<rparr>) ''update'' installed =
     (Inr (),
      installed\<lparr>files :=
          [(''/home/u/.bgmi/front_static/package.json'', ''{version: 2.3.0}''),
           (''/home/u/.bgmi/front_static/static/app.js'', ''js''),
           (''/home/u/.bgmi/front_static/index.html'', ''<html>''),
           (''/home/u/.bgmi/front_static/package/package.json'', ''{}'')],
        dirs :=
          [''/home/u/.bgmi'', ''/home/u/.bgmi/front_static'', ''/home/u'', ''/home'', ''/'',
           ''/home/u/.bgmi/front_static/package'', ''/home/u/.bgmi/front_static/package/dist'',
           ''/home/u/.bgmi/front_static/static''],
        console :=
          [(Info, ''Updateing BGmi frontend''),
           (Success, ''Web admin page update successfully. version: 2.3.0'')],
        requests :=
          [(''https://registry.npmjs.com/bgmi-frontend/'', 60),
           (''https://registry.npmjs.com/bgmi-frontend/2.3.0'', 60),
           (''http://a.com/bundle.tgz'', 60)]\<rparr>)"
  by code_simp

section \<open>Properties of check\_update\<close>

lemma catch_bind:
  "catch hs (bind m f) h w =
     (case m w of
        (Inl e, w') \<Rightarrow> if hs e then h e w' else (Inl e, w')
      | (Inr a, w') \<Rightarrow> catch hs (f a) h w')"
  by (simp add: catch_def bind_def split: prod.splits sum.splits)

lemma no_check_pure [no_check_intros]:
  "no_check (return a)" "no_check (raise e)" "no_check (lift r)"
  by (simp_all add: no_check_def return_def raise_def lift_def)

lemma no_check_bind [no_check_intros]:
  assumes "no_check m" and "\<And>a. no_check (f a)"
  shows "no_check (bind m f)"
  unfolding no_check_def
proof
  fix w
  obtain r w' where mw: "m w = (r, w')" by (cases "m w")
  with assms(1) have "checks w' = checks w" by (auto simp: no_check_def dest: spec [of _ w])
  with assms(2) mw show "checks (snd (bind m f w)) = checks w"
    by (cases r) (auto simp: bind_def no_check_def)
qed

lemma no_check_catch [no_check_intros]:
  assumes "no_check m" and "\<And>e. no_check (h e)"
  shows "no_check (catch hs m h)"
  unfolding no_check_def
proof
  fix w
  obtain r w' where mw: "m w = (r, w')" by (cases "m w")
  with assms(1) have "checks w' = checks w" by (auto simp: no_check_def dest: spec [of _ w])
  with assms(2) mw show "checks (snd (catch hs m h w)) = checks w"
    by (cases r) (auto simp: catch_def no_check_def)
qed

lemma no_check_if [no_check_intros]:
  "no_check a \<Longrightarrow> no_check b \<Longrightarrow> no_check (if c then a else b)"
  by simp

lemma no_check_print_line:
  "(l, s) \<noteq> (Info, ''Checking update ...'') \<Longrightarrow> no_check (print_line l s)"
  by (auto simp: no_check_def print_line_def checks_def)

lemma no_check_prints [no_check_intros]:
  "no_check (print_warning s)" "no_check (print_success s)" "no_check (print_error s)"
  "no_check (print_line Plain s)"
  by (auto simp: print_warning_def print_success_def print_error_def
      intro!: no_check_bind no_check_print_line no_check_pure)

lemma no_check_os [no_check_intros]:
  "no_check (glob_glob m p)" "no_check (lexists p)" "no_check (read_file p)" "no_check (write_file p d)"
  "no_check (makedirs p)" "no_check (rmtree p)" "no_check (listdir p)"
  "no_check (rename p q)" "no_check (move p q)"
  "no_check (requests_get env url t)" "no_check (response_json env r)"
  by (auto simp: no_check_def checks_def glob_glob_def lexists_def read_file_def write_file_def makedirs_def
      rmtree_def listdir_def rename_def move_def requests_get_def response_json_def
      return_def raise_def Let_def split: option.splits)

lemma no_check_extractall [no_check_intros]: "no_check (extractall path members)"
  by (induction members) (auto intro!: no_check_intros)

lemma no_check_move_all [no_check_intros]: "no_check (move_all src dst names)"
  by (induction names) (auto intro!: no_check_intros)

lemma no_check_fetch_tarball [no_check_intros]: "no_check (fetch_tarball env)"
  unfolding fetch_tarball_def
  by (auto intro!: no_check_intros split: json.split)

lemma no_check_install_bundle [no_check_intros]: "no_check (install_bundle env method r version)"
  unfolding install_bundle_def
  by (auto intro!: no_check_intros)

lemma no_check_get_web_admin [no_check_intros]: "no_check (get_web_admin env ''update'')"
  unfolding get_web_admin_def
  by (auto simp: print_info_def intro!: no_check_intros no_check_print_line split: option.split)

lemma no_check_check_frontend [no_check_intros]: "no_check (check_frontend env admin_version)"
  unfolding check_frontend_def
  by (auto simp: print_info_def intro!: no_check_intros no_check_print_line split: option.split)

lemma no_check_write_latest [no_check_intros]: "no_check (write_latest env version)"
  unfolding write_latest_def
  by (auto intro!: no_check_intros split: json.split)

lemma checks_catch_print:
  assumes "no_check (f ())" and "\<And>e. no_check (h e)"
  shows "checks (snd (catch hs (bind (print_info ''Checking update ...'') f) h w)) = checks w + 1"
proof -
  let ?w = "w\<lparr>console := console w @ [(Info, ''Checking update ...'')]\<rparr>"
  have "catch hs (bind (print_info ''Checking update ...'') f) h w = catch hs (f ()) h ?w"
    by (simp add: catch_def bind_def print_info_def print_line_def)
  moreover have "no_check (catch hs (f ()) h)"
    using assms by (intro no_check_catch)
  ultimately have "checks (snd (catch hs (bind (print_info ''Checking update ...'') f) h w))
      = checks ?w"
    by (simp add: no_check_def)
  then show ?thesis by (simp add: checks_def)
qed

lemma update_body_marked:
  "checks (snd (update_body env True self w)) = checks w + 1"
  unfolding update_body_def
  by (rule checks_catch_print) (auto intro!: no_check_intros)

lemma update_marked_once: "checks (snd (update k env True w)) = checks w + 1"
  by (cases k) (simp_all add: update_body_marked)

lemma fst_written:
  "q \<in> set (map fst (filter (\<lambda>e. fst e \<noteq> p) fs)) \<longleftrightarrow> q \<noteq> p \<and> q \<in> set (map fst fs)"
  by (induction fs) auto

lemma map_of_others:
  "q \<noteq> p \<Longrightarrow> map_of (filter (\<lambda>e. fst e \<noteq> p) fs) q = map_of fs q"
  by (induction fs) auto

lemma path_exists_frame:
  "path_exists (w\<lparr>console := c\<rparr>) q = path_exists w q"
  "path_exists (w\<lparr>requests := r\<rparr>) q = path_exists w q"
  "path_exists (w\<lparr>ticks := k\<rparr>) q = path_exists w q"
  "path_exists (w\<lparr>files := (p, d) # filter (\<lambda>e. fst e \<noteq> p) (files w)\<rparr>) q
     = (q = p \<or> path_exists w q)"
  by (auto simp: path_exists_def)

lemma check_frontend_absent:
  "\<not> path_exists w (join (front_static_path env) ''package.json'') \<Longrightarrow>
   \<not> has_magic (front_static_path env) \<Longrightarrow>
   check_frontend env admin_version w =
     print_info ''Use 'bgmi install' to install BGmi frontend / download delegate'' w"
  by (simp add: check_frontend_def bind_def glob_literal join_def has_magic_def basename_def)

lemma demo_round:
  assumes "\<not> path_exists w ''/home/u/.bgmi/front_static/package.json''"
  shows "update_body demo mark self w =
     catch is_Exception (if \<not> mark then bind self (\<lambda>_. raise SystemExit) else return ())
       (\<lambda>e. print_warning (''Error occurs when checking update, '' @ exn_text e)) (checked w)"
proof -
  have front: "join (front_static_path demo) ''package.json''
      = ''/home/u/.bgmi/front_static/package.json''"
    by (simp add: join_def demo_def)
  have latest: "join (BGMI_PATH demo) ''latest'' = ''/home/u/.bgmi/latest''"
    by (simp add: join_def demo_def)
  have literal: "\<not> has_magic (front_static_path demo)"
    by (simp add: has_magic_def demo_def)
  have net: "http_get demo ''https://pypi.org/pypi/bgmi/json'' 60
        = Inr \<lparr>status_code = 200, content = ''https://pypi.org/pypi/bgmi/json''\<rparr>"
    "http_get demo ''https://registry.npmjs.com/bgmi-frontend/2.2.0'' 60
        = Inr \<lparr>status_code = 200, content = ''https://registry.npmjs.com/bgmi-frontend/2.2.0''\<rparr>"
    "json_parse demo ''https://pypi.org/pypi/bgmi/json''
        = Some (JObj [(''info'', JObj [(''version'', JStr ''4.5.1'')])])"
    "json_parse demo ''https://registry.npmjs.com/bgmi-frontend/2.2.0''
        = Some (JObj [(''version'', JStr ''2.2.0'')])"
    "core_version demo = ''4.5.0''"
    "PACKAGE_JSON_URL demo = ''https://registry.npmjs.com/bgmi-frontend/2.2.0''"
    by (simp_all add: demo_def PACKAGE_JSON_URL_def)
  show ?thesis
    using assms
    by (simp add: update_body_def catch_bind print_info_def print_line_def
        print_warning_def print_success_def requests_get_def response_json_def lift_def
        return_def raise_def write_latest_def write_file_def core_newer_def str_gt_def
        shown_def front latest net literal check_frontend_absent path_exists_frame checked_def)
qed

lemma checked_props:
  "checks (checked w) = checks w + 1"
  "path_exists (checked w) ''/home/u/.bgmi/front_static/package.json''
     = path_exists w ''/home/u/.bgmi/front_static/package.json''"
  "map_of (files (checked w)) ''/home/u/.bgmi/version'' = map_of (files w) ''/home/u/.bgmi/version''"
  by (simp_all add: checked_def checks_def path_exists_def fst_written map_of_others
      del: set_map set_filter)

lemma checks_warning:
  "checks (w\<lparr>console := console w @ [(Warning, m)]\<rparr>) = checks w"
  by (simp add: checks_def)

lemma update_demo_unmarked:
  assumes "\<not> path_exists w ''/home/u/.bgmi/front_static/package.json''"
  shows "fst (update k demo False w) = (if k = 0 then Inr () else Inl SystemExit)
     \<and> checks (snd (update k demo False w)) = checks w + k + 1
     \<and> map_of (files (snd (update k demo False w))) ''/home/u/.bgmi/version''
         = map_of (files w) ''/home/u/.bgmi/version''"
  using assms
proof (induction k arbitrary: w)
  case 0
  then show ?case
    by (simp add: demo_round catch_def bind_def raise_def is_Exception_def print_warning_def
        print_line_def checked_props checks_warning)
next
  case (Suc k)
  from Suc.prems have "\<not> path_exists (checked w) ''/home/u/.bgmi/front_static/package.json''"
    by (simp add: checked_props)
  from Suc.IH [OF this] Suc.prems show ?case
    by (cases "update k demo False (checked w)")
       (auto simp: demo_round catch_def bind_def raise_def checked_props is_Exception_def
          split: sum.splits if_splits)
qed

lemma stamp_unfold:
  "stamp env mark w =
     update (stack_left env) env mark (stamped env (time_time env (ticks w)) 1 w)"
  by (simp add: stamp_def bind_def now_def write_file_def stamped_def)

lemma marker_present:
  "map_of (files w) p = Some text \<Longrightarrow> path_exists w p"
  by (auto simp: path_exists_def dest: map_of_SomeD intro: rev_image_eqI)

lemma check_update_missing:
  assumes "\<not> path_exists w (version_file env)"
  shows "check_update env mark w =
           bind (update (stack_left env) env mark) (\<lambda>_. recheck env mark)
             (stamped env (time_time env (ticks w)) 1 w)"
  using assms by (simp add: check_update_def bind_def stamp_unfold)

lemma check_update_malformed:
  assumes "map_of (files w) (version_file env) = Some text" and "py_int text = None"
  shows "check_update env mark w = (Inr (), w)"
  using assms marker_present [OF assms(1)]
  by (simp add: check_update_def recheck_def bind_def return_def read_file_def catch_def raise_def)

lemma check_update_fresh:
  assumes "map_of (files w) (version_file env) = Some text" and "py_int text = Some data"
    and "\<not> time_time env (ticks w) - 604800 > real_of_int data"
  shows "check_update env mark w = (Inr (), w\<lparr>ticks := ticks w + 1\<rparr>)"
  using assms marker_present [OF assms(1)]
  by (simp add: check_update_def recheck_def bind_def return_def read_file_def catch_def now_def)

lemma catch_none:
  "(\<And>e w'. m w = (Inl e, w') \<Longrightarrow> \<not> handles e) \<Longrightarrow> catch handles m h w = m w"
  by (auto simp: catch_def split: prod.splits sum.splits)

lemma check_update_old_pre:
  assumes "map_of (files w) (version_file env) = Some text" and "py_int text = Some data"
    and "time_time env (ticks w) - 604800 > real_of_int data"
  shows "check_update env mark w =
           catch (\<lambda>e. e = ValueError) (update (stack_left env) env mark) (\<lambda>e. return ())
             (stamped env (time_time env (ticks w + 1)) 2 w)"
  using assms marker_present [OF assms(1)]
  by (simp add: check_update_def recheck_def bind_def return_def read_file_def catch_def now_def
      stamp_unfold stamped_def)


lemma update_body_only_exit:
  "update_body env mark self w = (Inl e, w') \<Longrightarrow> e = SystemExit"
  by (auto simp: update_body_def catch_def print_warning_def print_line_def is_Exception_def
      split: prod.splits sum.splits if_splits)

lemma update_only_exit: "update k env mark w = (Inl e, w') \<Longrightarrow> e = SystemExit"
  by (cases k) (auto dest: update_body_only_exit)

lemma check_update_old:
  assumes "map_of (files w) (version_file env) = Some text" and "py_int text = Some data"
    and "time_time env (ticks w) - 604800 > real_of_int data"
  shows "check_update env mark w =
           update (stack_left env) env mark (stamped env (time_time env (ticks w + 1)) 2 w)"
proof -
  have "catch (\<lambda>e. e = ValueError) (update (stack_left env) env mark) (\<lambda>e. return ())
          (stamped env (time_time env (ticks w + 1)) 2 w)
        = update (stack_left env) env mark (stamped env (time_time env (ticks w + 1)) 2 w)"
    by (rule catch_none) (auto dest: update_only_exit)
  with check_update_old_pre [OF assms] show ?thesis by simp
qed

lemma check_update_marked_old_once:
  assumes "map_of (files w) (version_file env) = Some text" and "py_int text = Some data"
    and "time_time env (ticks w) - 604800 > real_of_int data"
  shows "checks (snd (check_update env True w)) = checks w + 1"
  using check_update_old [OF assms, of True]
  by (simp add: update_marked_once) (simp add: stamped_def checks_def)

text \<open>
  C5, at the input where the code departs from it: \<open>check_update(mark=False)\<close> with a
  marker older than seven days and the network answering.  The marker is overwritten
  with the current time, but \<open>update\<close> then calls itself until the stack is exhausted
  (here after two nested calls), so three update checks run instead of one, and the
  call ends in \<open>SystemExit\<close>.
\<close>

theorem check_update_unmarked_recursion:
  "fst (check_update demo False old_marker) = Inl SystemExit
   \<and> checks (snd (check_update demo False old_marker)) = 3
   \<and> map_of (files (snd (check_update demo False old_marker))) ''/home/u/.bgmi/version''
       = Some ''1700000001''"
proof -
  have vf: "version_file demo = ''/home/u/.bgmi/version''"
    by (simp add: version_file_def join_def demo_def)
  have a: "map_of (files old_marker) (version_file demo) = Some ''1699000000''"
    by (simp add: vf old_marker_def world0_def)
  have b: "py_int ''1699000000'' = Some 1699000000"
    by (simp add: py_int_def strip_def is_space_def int_body_def is_digit_def digit_val_def)
  have c: "time_time demo (ticks old_marker) - 604800 > real_of_int 1699000000"
    by (simp add: demo_def old_marker_def world0_def)
  let ?w = "stamped demo (time_time demo (ticks old_marker + 1)) 2 old_marker"
  have d: "check_update demo False old_marker = update 2 demo False ?w"
    using check_update_old [OF a b c, of False] by (simp add: demo_def)
  have e: "\<not> path_exists ?w ''/home/u/.bgmi/front_static/package.json''"
    by (simp add: stamped_def vf path_exists_def old_marker_def world0_def)
  have f: "checks ?w = 0"
    by (simp add: stamped_def checks_def old_marker_def world0_def)
  have t: "time_time demo (ticks old_marker + 1) = 1700000001"
    by (simp add: demo_def old_marker_def world0_def)
  have g: "map_of (files ?w) ''/home/u/.bgmi/version'' = Some ''1700000001''"
    unfolding stamped_def t vf
    by (simp add: int_of_float_def py_str_def digits_of.simps char_of_def bit_0)
  from update_demo_unmarked [OF e, of 2] d f g show ?thesis by simp
qed

end
